theory Spec2Isabelle
  imports Complex_Main "HOL-Library.Char_ord" "HOL-Library.List_Lexorder"
begin

section \<open>The JavaScript values the font style feature computes with\<close>

text \<open>
  The feature is written in JavaScript. Its option normaliser (module
  \<^verbatim>\<open>font/fontstyle/utils\<close>) and its editing plugin (\<^verbatim>\<open>FontStyleEditing\<close>) call four
  functions of the language itself: \<^verbatim>\<open>parseInt\<close>, \<^verbatim>\<open>parseFloat\<close>, \<^verbatim>\<open>isNaN\<close> and the
  conversion of a number to a string (\<^verbatim>\<open>String(n)\<close>, a template literal, a property key).
  They are modelled here after ECMA-262. A string is a list of code units; the \<open>char\<close> of
  HOL has 256 values, so the strings of the model are those whose code units are below 256.
\<close>

subsection \<open>Characters and digit strings\<close>

definition isDecimalDigit :: "char \<Rightarrow> bool" where
  "isDecimalDigit c \<longleftrightarrow> 48 \<le> (of_char c :: nat) \<and> (of_char c :: nat) \<le> 57"

definition digitValue :: "char \<Rightarrow> int" where
  "digitValue c = int (of_char c) - 48"

text \<open>
  The white space and line terminators that \<^verbatim>\<open>parseInt\<close> and \<^verbatim>\<open>parseFloat\<close> skip at the
  start of their argument: TAB, LF, VT, FF, CR, SP and NBSP (the others lie beyond 255).
\<close>

definition isStrWhiteSpaceChar :: "char \<Rightarrow> bool" where
  "isStrWhiteSpaceChar c \<longleftrightarrow> (of_char c :: nat) \<in> {9, 10, 11, 12, 13, 32, 160}"

definition digitsValue :: "string \<Rightarrow> int" where
  "digitsValue ds = foldl (\<lambda>a c. 10 * a + digitValue c) 0 ds"

subsection \<open>parseInt with radix 10\<close>

text \<open>
  \<^verbatim>\<open>parseInt(string, 10)\<close>: skip leading white space, read an optional sign, take the longest
  run of decimal digits; with no digit the result is \<^verbatim>\<open>NaN\<close>, here \<open>None\<close>. The result is
  kept as an exact integer: the only caller clamps it into \<open>[0, 7]\<close> right away, and rounding
  an integer to a double changes neither its sign nor whether it lies below 0 or above 7.
\<close>

definition parseInt :: "string \<Rightarrow> int option" where
  "parseInt inputString =
     (let S = dropWhile isStrWhiteSpaceChar inputString;
          sign = (if S \<noteq> [] \<and> hd S = CHR ''-'' then - 1 else 1 :: int);
          S' = (if S \<noteq> [] \<and> (hd S = CHR ''+'' \<or> hd S = CHR ''-'') then tl S else S);
          Z = takeWhile isDecimalDigit S'
      in if Z = [] then None else Some (sign * digitsValue Z))"

subsection \<open>Numbers\<close>

text \<open>
  A JavaScript number is an IEEE 754 double. A finite one is kept as the rational it
  denotes; the two zeros are one value, as nothing here divides by a number or asks for its
  sign (\<^verbatim>\<open>String(-0)\<close> is \<^verbatim>\<open>"0"\<close>).
\<close>

datatype jsnum = NaN | PosInfinity | NegInfinity | Finite rat

text \<open>
  \<open>digitCount b n\<close> is the number of digits of \<open>n \<ge> 0\<close> in base \<open>b\<close>, and
  \<open>floorLog b a\<close> the integer \<open>e\<close> with \<open>b ^ e \<le> a < b ^ (e + 1)\<close>, for a rational \<open>a > 0\<close>.
\<close>

function digitCount :: "int \<Rightarrow> int \<Rightarrow> nat" where
  "digitCount b n = (if n < b \<or> b < 2 then 1 else Suc (digitCount b (n div b)))"
  by pat_completeness auto
termination
proof (relation "measure (\<lambda>(b, n). nat n)")
  show "wf (measure (\<lambda>(b, n). nat n))" by simp
next
  fix b n :: int
  assume "\<not> (n < b \<or> b < 2)"
  then have "2 \<le> b" "b \<le> n" by auto
  then have "n div b < n" by (simp add: int_div_less_self)
  then show "((b, n div b), (b, n)) \<in> measure (\<lambda>(b, n). nat n)"
    using \<open>2 \<le> b\<close> \<open>b \<le> n\<close> by simp
qed

definition powInt :: "int \<Rightarrow> int \<Rightarrow> rat" where
  "powInt b e = (if 0 \<le> e then of_int (b ^ nat e) else 1 / of_int (b ^ nat (- e)))"

definition floorLog :: "int \<Rightarrow> rat \<Rightarrow> int" where
  "floorLog b a =
     (let (p, q) = quotient_of a;
          d = int (digitCount b p) - int (digitCount b q)
      in if powInt b d \<le> a then d else d - 1)"

text \<open>
  Rounding a rational to the nearest double, ties to the even significand: 53 bits in the
  normal range, multiples of \<open>2 ^ - 1074\<close> below it, an infinity from \<open>2 ^ 1024\<close> on.
\<close>

definition roundHalfEven :: "rat \<Rightarrow> int" where
  "roundHalfEven x =
     (let f = \<lfloor>x\<rfloor>; r = x - of_int f
      in if r < 1 / 2 then f else if 1 / 2 < r then f + 1 else if even f then f else f + 1)"

definition roundToDouble :: "rat \<Rightarrow> jsnum" where
  "roundToDouble q =
     (if q = 0 then Finite 0
      else let a = \<bar>q\<bar>;
               e = max (floorLog 2 a) (- 1022);
               ulp = powInt 2 (e - 52);
               m = roundHalfEven (a / ulp)
           in if 1024 \<le> e \<or> (e = 1023 \<and> m = 2 ^ 53)
              then (if q < 0 then NegInfinity else PosInfinity)
              else Finite (if q < 0 then - (of_int m * ulp) else of_int m * ulp))"

subsection \<open>Number to string\<close>

text \<open>
  \<^verbatim>\<open>Number::toString\<close> in radix 10: the shortest digit string \<open>s\<close> of \<open>k\<close> digits and the
  exponent \<open>n\<close> with \<open>s * 10 ^ (n - k)\<close> rounding to the number, the closest such \<open>s\<close>
  where several fit; then the layout rules of the standard.
\<close>

function intToDigits :: "int \<Rightarrow> string" where
  "intToDigits n =
     (if n < 10 then [char_of (48 + n)] else intToDigits (n div 10) @ [char_of (48 + n mod 10)])"
  by pat_completeness auto
termination
  by (relation "measure nat") (auto simp: int_div_less_self)

text \<open>
  The search tries \<open>k = 1, 2, \<dots>\<close> digits and stops at the first \<open>k\<close> that fits. Seventeen
  significant digits determine a double, which bounds the search; the first argument
  counts the steps left.
\<close>

fun shortestDecimal :: "nat \<Rightarrow> rat \<Rightarrow> int \<Rightarrow> nat \<Rightarrow> int \<times> int" where
  "shortestDecimal 0 x n k = (\<lfloor>x / powInt 10 (n - int k)\<rfloor>, n)"
| "shortestDecimal (Suc fuel) x n k =
     (let scale = powInt 10 (n - int k);
          lo = \<lfloor>x / scale\<rfloor>;
          hi = lo + 1;
          okLo = (roundToDouble (of_int lo * scale) = Finite x);
          okHi = (roundToDouble (of_int hi * scale) = Finite x);
          dLo = x - of_int lo * scale;
          dHi = of_int hi * scale - x;
          useHi = (okHi \<and> (\<not> okLo \<or> dHi < dLo \<or> (dHi = dLo \<and> even hi)))
      in if useHi then (if hi = 10 ^ k then (10 ^ (k - 1), n + 1) else (hi, n))
         else if okLo then (lo, n)
         else shortestDecimal fuel x n (Suc k))"

definition positiveToString :: "rat \<Rightarrow> string" where
  "positiveToString x =
     (let (s, n) = shortestDecimal 17 x (floorLog 10 x + 1) 1;
          ds = intToDigits s;
          k = int (length ds)
      in if k \<le> n \<and> n \<le> 21 then ds @ replicate (nat (n - k)) CHR ''0''
         else if 0 < n \<and> n \<le> 21 then take (nat n) ds @ ''.'' @ drop (nat n) ds
         else if - 6 < n \<and> n \<le> 0 then ''0.'' @ replicate (nat (- n)) CHR ''0'' @ ds
         else let e = n - 1;
                  es = (if e < 0 then ''-'' else ''+'') @ intToDigits \<bar>e\<bar>
              in if k = 1 then ds @ ''e'' @ es
                 else take 1 ds @ ''.'' @ drop 1 ds @ ''e'' @ es)"

fun numberToString :: "jsnum \<Rightarrow> string" where
  "numberToString NaN = ''NaN''"
| "numberToString PosInfinity = ''Infinity''"
| "numberToString NegInfinity = ''-Infinity''"
| "numberToString (Finite q) =
     (if q = 0 then ''0'' else if q < 0 then ''-'' @ positiveToString (- q) else positiveToString q)"

subsection \<open>parseFloat\<close>

text \<open>
  \<^verbatim>\<open>parseFloat\<close> skips leading white space and reads the longest prefix that is a
  \<^verbatim>\<open>StrDecimalLiteral\<close>: a sign, then \<^verbatim>\<open>Infinity\<close> or digits with an optional fraction and an
  optional exponent. Whatever follows is ignored; with no such prefix the result is
  \<^verbatim>\<open>NaN\<close>. A literal is a sign, a significand and a decimal exponent.
\<close>

datatype decimal_literal = InfinityLiteral bool | DecimalLiteral bool int int

definition exponentPart :: "string \<Rightarrow> int" where
  "exponentPart r =
     (case r of
        [] \<Rightarrow> 0
      | c # r1 \<Rightarrow>
          if c = CHR ''e'' \<or> c = CHR ''E'' then
            (let neg = (r1 \<noteq> [] \<and> hd r1 = CHR ''-'');
                 r2 = (if r1 \<noteq> [] \<and> (hd r1 = CHR ''+'' \<or> hd r1 = CHR ''-'') then tl r1 else r1);
                 ds = takeWhile isDecimalDigit r2
             in if ds = [] then 0 else if neg then - digitsValue ds else digitsValue ds)
          else 0)"

definition strDecimalLiteralPrefix :: "string \<Rightarrow> decimal_literal option" where
  "strDecimalLiteralPrefix t =
     (let neg = (t \<noteq> [] \<and> hd t = CHR ''-'');
          u = (if t \<noteq> [] \<and> (hd t = CHR ''+'' \<or> hd t = CHR ''-'') then tl t else t);
          intDigits = takeWhile isDecimalDigit u;
          r1 = dropWhile isDecimalDigit u
      in if take 8 u = ''Infinity'' then Some (InfinityLiteral neg)
         else if r1 \<noteq> [] \<and> hd r1 = CHR ''.'' then
           (let fracDigits = takeWhile isDecimalDigit (tl r1);
                r2 = dropWhile isDecimalDigit (tl r1)
            in if intDigits = [] \<and> fracDigits = [] then None
               else Some (DecimalLiteral neg (digitsValue (intDigits @ fracDigits))
                            (exponentPart r2 - int (length fracDigits))))
         else if intDigits = [] then None
         else Some (DecimalLiteral neg (digitsValue intDigits) (exponentPart r1)))"

fun numberValue :: "decimal_literal \<Rightarrow> jsnum" where
  "numberValue (InfinityLiteral neg) = (if neg then NegInfinity else PosInfinity)"
| "numberValue (DecimalLiteral neg m e) =
     roundToDouble ((if neg then - 1 else 1) * of_int m * powInt 10 e)"

definition parseFloat :: "string \<Rightarrow> jsnum" where
  "parseFloat inputString =
     (case strDecimalLiteralPrefix (dropWhile isStrWhiteSpaceChar inputString) of
        None \<Rightarrow> NaN
      | Some lit \<Rightarrow> numberValue lit)"

definition isNaN :: "jsnum \<Rightarrow> bool" where
  "isNaN n \<longleftrightarrow> n = NaN"

section \<open>The option normaliser (\<^verbatim>\<open>font/fontstyle/utils\<close>)\<close>

subsection \<open>Options\<close>

text \<open>
  The view element definition of an option, with the fields this feature reads or writes.
  An absent property (\<^verbatim>\<open>undefined\<close>) is \<open>None\<close>.
\<close>

record view_definition =
  name :: string
  classes :: "string option"
  styles :: "(string \<times> string option) list option"
  priority :: "int option"

text \<open>
  A \<^verbatim>\<open>FontStyleOption\<close>. The same shape serves for an object written in the configuration,
  where any of the three properties may be missing.
\<close>

record font_style_option =
  title :: "string option"
  model :: "string option"
  view :: "view_definition option"

text \<open>An element of \<^verbatim>\<open>config.fontStyle.options\<close>: a string, a number or an object.\<close>

datatype config_option =
  OptionString string
| OptionNumber jsnum
| OptionObject font_style_option

text \<open>
  What a test such as \<^verbatim>\<open>!definition.model\<close> or \<^verbatim>\<open>definition.title && \<dots>\<close> asks of a
  string-valued property: \<^verbatim>\<open>undefined\<close> and the empty string are falsy. A priority is
  falsy when it is \<^verbatim>\<open>undefined\<close> or 0.
\<close>

definition truthy :: "string option \<Rightarrow> bool" where
  "truthy v \<longleftrightarrow> v \<noteq> None \<and> v \<noteq> Some []"

definition truthyPriority :: "int option \<Rightarrow> bool" where
  "truthyPriority p \<longleftrightarrow> p \<noteq> None \<and> p \<noteq> Some 0"

text \<open>
  The data a \<^verbatim>\<open>CKEditorError\<close> carries: the faulty definition, as a value or (in the store
  model further down) as the address of the object, or the list of rejected models.
\<close>

datatype error_data =
  DefinitionData font_style_option
| ObjectData nat
| PresetsData "string option list"

text \<open>
  The two ways the code fails: a \<^verbatim>\<open>TypeError\<close> of the language (a property read of
  \<^verbatim>\<open>undefined\<close>) and a \<^verbatim>\<open>CKEditorError\<close> with its name and data.
\<close>

datatype error =
  TypeError
| CKEditorError string error_data

subsection \<open>Named presets\<close>

text \<open>
  \<^verbatim>\<open>namedPresets\<close> has four getters, each returning a new object on every read. A value has
  no identity, so a read is the value itself here; the store model further down keeps the
  identities.
\<close>

definition namedPresets :: "string \<Rightarrow> font_style_option option" where
  "namedPresets key =
     (if key = ''tiny'' then
        Some \<lparr>title = Some ''Tiny'', model = Some ''tiny'',
              view = Some \<lparr>name = ''span'', classes = Some ''text-tiny'', styles = None,
                            priority = Some 7\<rparr>\<rparr>
      else if key = ''small'' then
        Some \<lparr>title = Some ''Small'', model = Some ''small'',
              view = Some \<lparr>name = ''span'', classes = Some ''text-small'', styles = None,
                            priority = Some 7\<rparr>\<rparr>
      else if key = ''big'' then
        Some \<lparr>title = Some ''Big'', model = Some ''big'',
              view = Some \<lparr>name = ''span'', classes = Some ''text-big'', styles = None,
                            priority = Some 7\<rparr>\<rparr>
      else if key = ''huge'' then
        Some \<lparr>title = Some ''Huge'', model = Some ''huge'',
              view = Some \<lparr>name = ''span'', classes = Some ''text-huge'', styles = None,
                            priority = Some 7\<rparr>\<rparr>
      else None)"

text \<open>
  \<^verbatim>\<open>namedPresets\<close> is an object literal, so \<^verbatim>\<open>namedPresets[ key ]\<close> also finds what
  \<^verbatim>\<open>Object.prototype\<close> holds under these names: functions, and the prototype itself for
  \<^verbatim>\<open>__proto__\<close>. Each is truthy and has no \<^verbatim>\<open>title\<close>, \<^verbatim>\<open>model\<close> or \<^verbatim>\<open>view\<close>.
\<close>

definition objectPrototypeKeys :: "string list" where
  "objectPrototypeKeys =
     [''constructor'', ''hasOwnProperty'', ''isPrototypeOf'', ''propertyIsEnumerable'',
      ''toLocaleString'', ''toString'', ''valueOf'', ''__proto__'', ''__defineGetter__'',
      ''__defineSetter__'', ''__lookupGetter__'', ''__lookupSetter__'']"

definition namedPresetsLookup :: "string \<Rightarrow> font_style_option option" where
  "namedPresetsLookup key =
     (case namedPresets key of
        Some preset \<Rightarrow> Some preset
      | None \<Rightarrow>
          if key \<in> set objectPrototypeKeys
          then Some \<lparr>title = None, model = None, view = None\<rparr>
          else None)"

text \<open>
  The property key an option is turned into when it indexes \<^verbatim>\<open>namedPresets\<close>: a string is
  itself, a number its decimal form, a plain object \<^verbatim>\<open>"[object Object]"\<close>. And
  \<^verbatim>\<open>definition.model\<close>, which a string or a number does not have.
\<close>

fun propertyKey :: "config_option \<Rightarrow> string" where
  "propertyKey (OptionString s) = s"
| "propertyKey (OptionNumber n) = numberToString n"
| "propertyKey (OptionObject d) = ''[object Object]''"

fun modelOf :: "config_option \<Rightarrow> string option" where
  "modelOf (OptionString s) = None"
| "modelOf (OptionNumber n) = None"
| "modelOf (OptionObject d) = model d"

definition String_of :: "string option \<Rightarrow> string" where
  "String_of v = (case v of None \<Rightarrow> ''undefined'' | Some s \<Rightarrow> s)"

definition findPreset :: "config_option \<Rightarrow> font_style_option option" where
  "findPreset definition =
     (case namedPresetsLookup (propertyKey definition) of
        Some preset \<Rightarrow> Some preset
      | None \<Rightarrow> namedPresetsLookup (String_of (modelOf definition)))"

subsection \<open>The steps of \<^verbatim>\<open>getOptionDefinition\<close>\<close>

fun isFullItemDefinition :: "config_option \<Rightarrow> bool" where
  "isFullItemDefinition (OptionObject d) \<longleftrightarrow> truthy (title d) \<and> truthy (model d) \<and> view d \<noteq> None"
| "isFullItemDefinition _ \<longleftrightarrow> False"

text \<open>
  \<^verbatim>\<open>attachPriority\<close> reads \<^verbatim>\<open>definition.view.priority\<close>. A string or a number has no
  \<^verbatim>\<open>view\<close>, and neither has an object without one: reading the priority of \<^verbatim>\<open>undefined\<close>
  is a \<^verbatim>\<open>TypeError\<close>.
\<close>

fun attachPriority :: "config_option \<Rightarrow> error + font_style_option" where
  "attachPriority (OptionObject definition) =
     (case view definition of
        None \<Rightarrow> Inl TypeError
      | Some v \<Rightarrow>
          if \<not> truthyPriority (priority v)
          then Inr (definition\<lparr>view := Some (v\<lparr>priority := Some 7\<rparr>)\<rparr>)
          else Inr definition)"
| "attachPriority (OptionString s) = Inl TypeError"
| "attachPriority (OptionNumber n) = Inl TypeError"

fun isNumericalDefinition :: "config_option \<Rightarrow> error + bool" where
  "isNumericalDefinition (OptionObject d) =
     (if \<not> truthy (model d)
      then Inl (CKEditorError ''font-style-invalid-definition'' (DefinitionData d))
      else Inr (isNaN (parseFloat (String_of (model d)))))"
| "isNumericalDefinition (OptionString s) = Inr (isNaN (parseFloat s))"
| "isNumericalDefinition (OptionNumber n) = Inr (isNaN (parseFloat (numberToString n)))"

text \<open>
  The first half of \<^verbatim>\<open>generatePixelPreset\<close>: a number or a string is extended to an object
  with a title and a model; an object is taken as it is.
\<close>

fun extendShortDefinition :: "config_option \<Rightarrow> font_style_option" where
  "extendShortDefinition (OptionNumber n) =
     \<lparr>title = Some (numberToString n),
      model = Some (numberToString (parseFloat (numberToString n)) @ ''px''),
      view = None\<rparr>"
| "extendShortDefinition (OptionString s) =
     \<lparr>title = Some s,
      model = Some (numberToString (parseFloat s) @ ''px''),
      view = None\<rparr>"
| "extendShortDefinition (OptionObject d) = d"

definition generatePixelPreset :: "config_option \<Rightarrow> error + font_style_option" where
  "generatePixelPreset definition =
     (let d = extendShortDefinition definition
      in attachPriority
           (OptionObject
              (d\<lparr>view := Some \<lparr>name = ''span'', classes = None,
                                 styles = Some [(''font-style'', model d)], priority = None\<rparr>\<rparr>)))"

text \<open>
  \<^verbatim>\<open>getOptionDefinition\<close> returns an option, \<^verbatim>\<open>undefined\<close> (here \<open>None\<close>) for an item that
  cannot be parsed, or throws.
\<close>

definition getOptionDefinition :: "config_option \<Rightarrow> error + font_style_option option" where
  "getOptionDefinition option =
     (if isFullItemDefinition option then map_sum id Some (attachPriority option)
      else
        (case findPreset option of
           Some preset \<Rightarrow> map_sum id Some (attachPriority (OptionObject preset))
         | None \<Rightarrow>
             if option = OptionString ''default'' then
               Inr (Some \<lparr>title = Some ''Default'', model = None, view = None\<rparr>)
             else
               (case isNumericalDefinition option of
                  Inl e \<Rightarrow> Inl e
                | Inr True \<Rightarrow> Inr None
                | Inr False \<Rightarrow> map_sum id Some (generatePixelPreset option))))"

text \<open>
  \<^verbatim>\<open>Array.prototype.map\<close> with a callback that may throw: the elements are visited from
  left to right and the first exception ends the call.
\<close>

fun mapThrowing :: "('a \<Rightarrow> error + 'b) \<Rightarrow> 'a list \<Rightarrow> error + 'b list" where
  "mapThrowing f [] = Inr []"
| "mapThrowing f (x # xs) =
     (case f x of
        Inl e \<Rightarrow> Inl e
      | Inr y \<Rightarrow> (case mapThrowing f xs of Inl e \<Rightarrow> Inl e | Inr ys \<Rightarrow> Inr (y # ys)))"

definition normalizeOptions :: "config_option list \<Rightarrow> error + font_style_option list" where
  "normalizeOptions configuredOptions =
     (case mapThrowing getOptionDefinition configuredOptions of
        Inl e \<Rightarrow> Inl e
      | Inr defs \<Rightarrow> Inr (List.map_filter id defs))"

text \<open>
  The options that get as far as \<^verbatim>\<open>isNumericalDefinition\<close> in \<^verbatim>\<open>getOptionDefinition\<close>: not
  a full definition, not a preset, not \<^verbatim>\<open>'default'\<close>. And those that get as far as
  \<^verbatim>\<open>generatePixelPreset\<close>: the former whose number is not \<^verbatim>\<open>NaN\<close>.
\<close>

definition reachesNumericalCheck :: "config_option \<Rightarrow> bool" where
  "reachesNumericalCheck option \<longleftrightarrow>
     \<not> isFullItemDefinition option \<and> findPreset option = None \<and> option \<noteq> OptionString ''default''"

definition reachesPixelPreset :: "config_option \<Rightarrow> bool" where
  "reachesPixelPreset option \<longleftrightarrow>
     reachesNumericalCheck option \<and> isNumericalDefinition option = Inr False"

section \<open>The editing plugin (\<^verbatim>\<open>font/fontstyle/fontstyleediting\<close>)\<close>

subsection \<open>The legacy \<^verbatim>\<open><font style="..">\<close> converter\<close>

text \<open>
  \<^verbatim>\<open>styleFontStyle\<close>: the table from a legacy level to a CSS keyword. Level 0 is treated
  as level 1.
\<close>

definition styleFontStyle :: "string list" where
  "styleFontStyle =
     [''x-small'', ''x-small'', ''small'', ''medium'', ''large'', ''x-large'', ''xx-large'',
      ''xxx-large'']"

text \<open>
  A view element of the editing engine, as far as the converters look at it. The engine
  does not keep the \<^verbatim>\<open>style\<close> attribute as text: when an element is built, the text is
  parsed into the styles map of the element, one entry for each declaration
  \<^verbatim>\<open>property:value\<close>. So \<open>ve_styles\<close> is that map and \<open>ve_attributes\<close> holds the other
  attributes. (The engine keeps \<^verbatim>\<open>class\<close> apart as well; the code reads no class of a view
  element and the model has none.)
\<close>

record view_element =
  ve_name :: string
  ve_attributes :: "(string \<times> string) list"
  ve_styles :: "(string \<times> string) list"

text \<open>
  The styles map as text, as the engine's \<^verbatim>\<open>StylesMap.toString\<close> gives it: the entries
  \<^verbatim>\<open>property:value\<close> in sorted order, joined by \<^verbatim>\<open>;\<close> and closed by \<^verbatim>\<open>;\<close>; the empty text for
  an empty map.
\<close>

fun joinStyles :: "string list \<Rightarrow> string" where
  "joinStyles [] = []"
| "joinStyles [entry] = entry"
| "joinStyles (entry # entries) = entry @ '';'' @ joinStyles entries"

definition stylesToString :: "(string \<times> string) list \<Rightarrow> string" where
  "stylesToString stylesMap =
     (if stylesMap = [] then []
      else joinStyles (sort (map (\<lambda>(property, v). property @ '':'' @ v) stylesMap)) @ '';'')"

text \<open>
  \<^verbatim>\<open>getAttribute\<close> of the engine's view element. For the key \<^verbatim>\<open>style\<close> it returns the styles
  map as text, and \<^verbatim>\<open>undefined\<close> when the map is empty: on an element written
  \<^verbatim>\<open><font style="-999">\<close>, whose style text holds no declaration, it returns
  \<^verbatim>\<open>undefined\<close>. For any other key it looks the attribute up.
\<close>

definition getAttribute :: "view_element \<Rightarrow> string \<Rightarrow> string option" where
  "getAttribute viewElement key =
     (if key = ''style'' then
        (if stylesToString (ve_styles viewElement) = [] then None
         else Some (stylesToString (ve_styles viewElement)))
      else map_of (ve_attributes viewElement) key)"

definition getStyle :: "view_element \<Rightarrow> string \<Rightarrow> string option" where
  "getStyle viewElement key = map_of (ve_styles viewElement) key"

text \<open>
  The attribute pattern \<^verbatim>\<open>/^[+-]?\d{1,3}$/\<close> of \<^verbatim>\<open>_prepareCompatibilityConverter\<close>: an
  optional sign, then one to three decimal digits, and nothing else.
\<close>

definition compatStylePattern :: "string \<Rightarrow> bool" where
  "compatStylePattern s =
     (let ds = (case s of [] \<Rightarrow> s
                | c # r \<Rightarrow> if c = CHR ''+'' \<or> c = CHR ''-'' then r else s)
      in 1 \<le> length ds \<and> length ds \<le> 3 \<and> list_all isDecimalDigit ds)"

text \<open>
  The element matcher of the rule: a \<^verbatim>\<open>font\<close> element that has the attribute \<^verbatim>\<open>style\<close> with
  a text that fits the pattern. The engine's matcher asks the element for the attribute
  with \<^verbatim>\<open>getAttribute\<close>.
\<close>

definition compatMatches :: "view_element \<Rightarrow> bool" where
  "compatMatches viewElement \<longleftrightarrow>
     ve_name viewElement = ''font'' \<and>
     (case getAttribute viewElement ''style'' of None \<Rightarrow> False | Some v \<Rightarrow> compatStylePattern v)"

text \<open>
  The \<^verbatim>\<open>value\<close> callback of the rule, in two parts. \<open>compatValueOfText\<close> is the callback
  from its second line on, as a function of the text \<^verbatim>\<open>value\<close>: \<^verbatim>\<open>NaN\<close> goes through
  \<^verbatim>\<open>Math.max\<close> and \<^verbatim>\<open>Math.min\<close> unchanged and indexes nothing, so the result is then
  \<^verbatim>\<open>undefined\<close>, here \<open>None\<close>. \<open>compatValue\<close> is the whole callback: it reads the attribute
  first, and reading \<^verbatim>\<open>value[ 0 ]\<close> of a missing attribute is a \<^verbatim>\<open>TypeError\<close>.
\<close>

definition compatValueOfText :: "string \<Rightarrow> string option" where
  "compatValueOfText value =
     (let isRelative = (value \<noteq> [] \<and> (hd value = CHR ''-'' \<or> hd value = CHR ''+''))
      in case parseInt value of
           None \<Rightarrow> None
         | Some parsed \<Rightarrow>
             (let style = (if isRelative then 3 + parsed else parsed);
                  maxStyle = int (length styleFontStyle) - 1;
                  clampedStyle = min (max style 0) maxStyle
              in Some (styleFontStyle ! nat clampedStyle)))"

definition compatValue :: "view_element \<Rightarrow> error + string option" where
  "compatValue viewElement =
     (case getAttribute viewElement ''style'' of
        None \<Rightarrow> Inl TypeError
      | Some value \<Rightarrow> Inr (compatValueOfText value))"

subsection \<open>The converters for any value\<close>

text \<open>
  The attribute element the downcast callback creates with
  \<^verbatim>\<open>writer.createAttributeElement( name, attributes, { priority } )\<close>.
\<close>

record attribute_element =
  ae_name :: string
  ae_attributes :: "(string \<times> string) list"
  ae_priority :: int

text \<open>The \<^verbatim>\<open>view\<close> callback of the downcast converter; \<open>None\<close> is its bare \<^verbatim>\<open>return\<close>.\<close>

definition anyValueView :: "string option \<Rightarrow> attribute_element option" where
  "anyValueView attributeValue =
     (if \<not> truthy attributeValue then None
      else Some \<lparr>ae_name = ''span'',
                 ae_attributes = [(''style'', ''font-style:'' @ String_of attributeValue)],
                 ae_priority = 7\<rparr>)"

text \<open>
  The upcast converter: its matcher is a \<^verbatim>\<open>span\<close> with a \<^verbatim>\<open>font-style\<close> style whose value
  fits \<^verbatim>\<open>/.*/\<close>, which every string does; its \<^verbatim>\<open>value\<close> callback reads that style.
\<close>

definition anyValueMatches :: "view_element \<Rightarrow> bool" where
  "anyValueMatches viewElement \<longleftrightarrow>
     ve_name viewElement = ''span'' \<and> getStyle viewElement ''font-style'' \<noteq> None"

definition anyValueValue :: "view_element \<Rightarrow> error + string option" where
  "anyValueValue viewElement = Inr (getStyle viewElement ''font-style'')"

subsection \<open>Building the conversion\<close>

text \<open>
  Modelled from the spec: the constant \<^verbatim>\<open>FONT_STYLE\<close> of the module \<^verbatim>\<open>font/utils\<close>, whose
  source is not at hand. It names the document attribute and the command; the plugin reads
  its configuration under \<^verbatim>\<open>fontStyle\<close> and the documentation executes the command
  \<^verbatim>\<open>'fontStyle'\<close>.
\<close>

definition FONT_STYLE :: string where
  "FONT_STYLE = ''fontStyle''"

text \<open>
  Modelled from the spec: the result of \<^verbatim>\<open>buildDefinition\<close>, one declarative two-way
  definition: the model key, the model values, and the view descriptor of each model.
\<close>

record converter_definition =
  model_key :: string
  model_values :: "string option list"
  view_of :: "(string option \<times> view_definition option) list"

text \<open>
  Modelled from the spec: \<^verbatim>\<open>buildDefinition\<close> of the module \<^verbatim>\<open>font/utils\<close>, whose source is
  not at hand. The specification describes its result as mapping each option's model to
  its view descriptor; the plugin reads its \<^verbatim>\<open>model.values\<close>, the models of the options in
  order.
\<close>

definition buildDefinition :: "string \<Rightarrow> font_style_option list \<Rightarrow> converter_definition" where
  "buildDefinition modelAttributeKey options =
     \<lparr>model_key = modelAttributeKey,
      model_values = map model options,
      view_of = map (\<lambda>option. (model option, view option)) options\<rparr>"

text \<open>
  What the plugin registers with \<^verbatim>\<open>editor.conversion\<close>: the two-way converter of a
  definition; a downcast converter with its model key and its \<^verbatim>\<open>view\<close> callback; an upcast
  converter with its model key, its element matcher and its \<^verbatim>\<open>value\<close> callback.
\<close>

datatype converter =
  AttributeToElement converter_definition
| DowncastAttributeToElement string "string option \<Rightarrow> attribute_element option"
| UpcastElementToAttribute string "view_element \<Rightarrow> bool" "view_element \<Rightarrow> error + string option"

text \<open>
  \<^verbatim>\<open>_prepareAnyValueConverters\<close>. \<^verbatim>\<open>isLength\<close> and \<^verbatim>\<open>isPercentage\<close> belong to the editing
  engine and are parameters here.
\<close>

definition prepareAnyValueConverters ::
  "(string \<Rightarrow> bool) \<Rightarrow> (string \<Rightarrow> bool) \<Rightarrow> converter_definition \<Rightarrow> error + converter list" where
  "prepareAnyValueConverters isLength isPercentage definition =
     (let presets = filter (\<lambda>value. \<not> isLength (String_of value) \<and> \<not> isPercentage (String_of value))
                      (model_values definition)
      in if presets \<noteq> []
         then Inl (CKEditorError ''font-style-invalid-use-of-named-presets'' (PresetsData presets))
         else Inr [DowncastAttributeToElement FONT_STYLE anyValueView,
                   UpcastElementToAttribute FONT_STYLE anyValueMatches anyValueValue])"

definition prepareCompatibilityConverter :: "converter list" where
  "prepareCompatibilityConverter =
     [UpcastElementToAttribute FONT_STYLE compatMatches compatValue]"

record font_style_config =
  options :: "config_option list"
  supportAllValues :: bool

text \<open>
  The editor after \<^verbatim>\<open>init\<close>: the attributes the schema allows on text, the converters
  in the order of their registration, and the commands.
\<close>

record editor =
  allowedTextAttributes :: "string list"
  conversion :: "converter list"
  commands :: "string list"

definition init ::
  "(string \<Rightarrow> bool) \<Rightarrow> (string \<Rightarrow> bool) \<Rightarrow> font_style_config \<Rightarrow> error + editor" where
  "init isLength isPercentage config =
     (case normalizeOptions (options config) of
        Inl e \<Rightarrow> Inl e
      | Inr normalized \<Rightarrow>
          (let opts = filter (\<lambda>item. truthy (model item)) normalized;
               definition = buildDefinition FONT_STYLE opts
           in if supportAllValues config then
                (case prepareAnyValueConverters isLength isPercentage definition of
                   Inl e \<Rightarrow> Inl e
                 | Inr converters \<Rightarrow>
                     Inr \<lparr>allowedTextAttributes = [FONT_STYLE],
                          conversion = converters @ prepareCompatibilityConverter,
                          commands = [FONT_STYLE]\<rparr>)
              else
                Inr \<lparr>allowedTextAttributes = [FONT_STYLE],
                     conversion = [AttributeToElement definition],
                     commands = [FONT_STYLE]\<rparr>))"

section \<open>The normaliser on a store of objects\<close>

text \<open>
  The functions of \<^verbatim>\<open>font/fontstyle/utils\<close> once more, this time with the identity of
  objects: \<^verbatim>\<open>attachPriority\<close> and \<^verbatim>\<open>generatePixelPreset\<close> write into the object they are
  given, and a getter of \<^verbatim>\<open>namedPresets\<close> creates objects. A value is a primitive or the
  address of an object; an object is the list of its own properties; the store is the list
  of all objects, a new one being added at the end. Properties keep any value here, as in
  the language.
\<close>

datatype js_value =
  Undefined
| StringValue string
| NumberValue jsnum
| Reference nat

type_synonym js_object = "(string \<times> js_value) list"

type_synonym store = "js_object list"

definition newObject :: "store \<Rightarrow> js_object \<Rightarrow> nat \<times> store" where
  "newObject h properties = (length h, h @ [properties])"

text \<open>
  Reading a property. The code reads \<^verbatim>\<open>title\<close>, \<^verbatim>\<open>model\<close>, \<^verbatim>\<open>view\<close> and \<^verbatim>\<open>priority\<close>, which
  neither a string nor a number nor \<^verbatim>\<open>Object.prototype\<close> has; reading from \<^verbatim>\<open>undefined\<close> is
  a \<^verbatim>\<open>TypeError\<close>. An address outside the store does not occur in the language; it is an
  error here.
\<close>

fun getProperty :: "store \<Rightarrow> js_value \<Rightarrow> string \<Rightarrow> error + js_value" where
  "getProperty h Undefined key = Inl TypeError"
| "getProperty h (Reference r) key =
     (if r < length h
      then Inr (case map_of (h ! r) key of None \<Rightarrow> Undefined | Some v \<Rightarrow> v)
      else Inl TypeError)"
| "getProperty h (StringValue s) key = Inr Undefined"
| "getProperty h (NumberValue n) key = Inr Undefined"

fun putProperty :: "string \<Rightarrow> js_value \<Rightarrow> js_object \<Rightarrow> js_object" where
  "putProperty key v [] = [(key, v)]"
| "putProperty key v ((k, w) # properties) =
     (if k = key then (k, v) # properties else (k, w) # putProperty key v properties)"

text \<open>
  Writing a property. The module is strict code, where a write to a property of a
  primitive is a \<^verbatim>\<open>TypeError\<close>.
\<close>

fun setProperty :: "store \<Rightarrow> js_value \<Rightarrow> string \<Rightarrow> js_value \<Rightarrow> error + store" where
  "setProperty h (Reference r) key v =
     (if r < length h then Inr (h[r := putProperty key v (h ! r)]) else Inl TypeError)"
| "setProperty h Undefined key v = Inl TypeError"
| "setProperty h (StringValue s) key v = Inl TypeError"
| "setProperty h (NumberValue n) key v = Inl TypeError"

fun truthyValue :: "js_value \<Rightarrow> bool" where
  "truthyValue Undefined \<longleftrightarrow> False"
| "truthyValue (StringValue s) \<longleftrightarrow> s \<noteq> []"
| "truthyValue (NumberValue n) \<longleftrightarrow> n \<noteq> NaN \<and> n \<noteq> Finite 0"
| "truthyValue (Reference r) \<longleftrightarrow> True"

text \<open>\<^verbatim>\<open>String( value )\<close>, also the property key of a value; the objects are plain ones.\<close>

fun toStringValue :: "js_value \<Rightarrow> string" where
  "toStringValue Undefined = ''undefined''"
| "toStringValue (StringValue s) = s"
| "toStringValue (NumberValue n) = numberToString n"
| "toStringValue (Reference r) = ''[object Object]''"

text \<open>
  What \<^verbatim>\<open>namedPresets[ key ]\<close> finds: nothing, the object a getter has just created, or a
  value inherited from \<^verbatim>\<open>Object.prototype\<close>.
\<close>

datatype preset_lookup =
  NoPreset
| OwnPreset js_value
| InheritedValue string

text \<open>The object literal of a getter: a new view definition, then a new option holding it.\<close>

definition newPreset :: "store \<Rightarrow> string \<Rightarrow> string \<Rightarrow> string \<Rightarrow> preset_lookup \<times> store" where
  "newPreset h presetTitle presetModel presetClasses =
     (let (v, h1) = newObject h [(''name'', StringValue ''span''),
                                 (''classes'', StringValue presetClasses),
                                 (''priority'', NumberValue (Finite 7))];
          (r, h2) = newObject h1 [(''title'', StringValue presetTitle),
                                  (''model'', StringValue presetModel),
                                  (''view'', Reference v)]
      in (OwnPreset (Reference r), h2))"

definition namedPresetsS :: "store \<Rightarrow> string \<Rightarrow> preset_lookup \<times> store" where
  "namedPresetsS h key =
     (if key = ''tiny'' then newPreset h ''Tiny'' ''tiny'' ''text-tiny''
      else if key = ''small'' then newPreset h ''Small'' ''small'' ''text-small''
      else if key = ''big'' then newPreset h ''Big'' ''big'' ''text-big''
      else if key = ''huge'' then newPreset h ''Huge'' ''huge'' ''text-huge''
      else if key \<in> set objectPrototypeKeys then (InheritedValue key, h)
      else (NoPreset, h))"

definition findPresetS :: "store \<Rightarrow> js_value \<Rightarrow> error + preset_lookup \<times> store" where
  "findPresetS h definition =
     (case namedPresetsS h (toStringValue definition) of
        (NoPreset, h1) \<Rightarrow>
          (case getProperty h1 definition ''model'' of
             Inl e \<Rightarrow> Inl e
           | Inr m \<Rightarrow> Inr (namedPresetsS h1 (toStringValue m)))
      | found \<Rightarrow> Inr found)"

fun isFullItemDefinitionS :: "store \<Rightarrow> js_value \<Rightarrow> error + bool" where
  "isFullItemDefinitionS h (Reference r) =
     (case getProperty h (Reference r) ''title'' of
        Inl e \<Rightarrow> Inl e
      | Inr t \<Rightarrow>
          if \<not> truthyValue t then Inr False
          else (case getProperty h (Reference r) ''model'' of
                  Inl e \<Rightarrow> Inl e
                | Inr m \<Rightarrow>
                    if \<not> truthyValue m then Inr False
                    else (case getProperty h (Reference r) ''view'' of
                            Inl e \<Rightarrow> Inl e
                          | Inr v \<Rightarrow> Inr (truthyValue v))))"
| "isFullItemDefinitionS h Undefined = Inr False"
| "isFullItemDefinitionS h (StringValue s) = Inr False"
| "isFullItemDefinitionS h (NumberValue n) = Inr False"

definition attachPriorityS :: "store \<Rightarrow> js_value \<Rightarrow> error + js_value \<times> store" where
  "attachPriorityS h definition =
     (case getProperty h definition ''view'' of
        Inl e \<Rightarrow> Inl e
      | Inr v \<Rightarrow>
          (case getProperty h v ''priority'' of
             Inl e \<Rightarrow> Inl e
           | Inr p \<Rightarrow>
               if \<not> truthyValue p then
                 (case setProperty h v ''priority'' (NumberValue (Finite 7)) of
                    Inl e \<Rightarrow> Inl e
                  | Inr h1 \<Rightarrow> Inr (definition, h1))
               else Inr (definition, h)))"

fun isNumericalDefinitionS :: "store \<Rightarrow> js_value \<Rightarrow> error + bool" where
  "isNumericalDefinitionS h (Reference r) =
     (case getProperty h (Reference r) ''model'' of
        Inl e \<Rightarrow> Inl e
      | Inr m \<Rightarrow>
          if \<not> truthyValue m
          then Inl (CKEditorError ''font-style-invalid-definition'' (ObjectData r))
          else Inr (isNaN (parseFloat (toStringValue m))))"
| "isNumericalDefinitionS h Undefined = Inr (isNaN (parseFloat (toStringValue Undefined)))"
| "isNumericalDefinitionS h (StringValue s) = Inr (isNaN (parseFloat s))"
| "isNumericalDefinitionS h (NumberValue n) = Inr (isNaN (parseFloat (numberToString n)))"

fun extendShortDefinitionS :: "store \<Rightarrow> js_value \<Rightarrow> js_value \<times> store" where
  "extendShortDefinitionS h (NumberValue n) =
     (let (r, h1) = newObject h
            [(''title'', StringValue (numberToString n)),
             (''model'', StringValue (numberToString (parseFloat (numberToString n)) @ ''px''))]
      in (Reference r, h1))"
| "extendShortDefinitionS h (StringValue s) =
     (let (r, h1) = newObject h
            [(''title'', StringValue s),
             (''model'', StringValue (numberToString (parseFloat s) @ ''px''))]
      in (Reference r, h1))"
| "extendShortDefinitionS h (Reference r) = (Reference r, h)"
| "extendShortDefinitionS h Undefined = (Undefined, h)"

definition generatePixelPresetS :: "store \<Rightarrow> js_value \<Rightarrow> error + js_value \<times> store" where
  "generatePixelPresetS h definition =
     (let (d, h1) = extendShortDefinitionS h definition
      in case getProperty h1 d ''model'' of
           Inl e \<Rightarrow> Inl e
         | Inr m \<Rightarrow>
             (let (s, h2) = newObject h1 [(''font-style'', m)];
                  (v, h3) = newObject h2 [(''name'', StringValue ''span''), (''styles'', Reference s)]
              in case setProperty h3 d ''view'' (Reference v) of
                   Inl e \<Rightarrow> Inl e
                 | Inr h4 \<Rightarrow> attachPriorityS h4 d))"

definition getOptionDefinitionS :: "store \<Rightarrow> js_value \<Rightarrow> error + js_value \<times> store" where
  \<comment> \<open>An inherited value has no \<^verbatim>\<open>view\<close>, so \<^verbatim>\<open>attachPriority\<close> fails on reading its priority.\<close>
  "getOptionDefinitionS h option =
     (case isFullItemDefinitionS h option of
        Inl e \<Rightarrow> Inl e
      | Inr True \<Rightarrow> attachPriorityS h option
      | Inr False \<Rightarrow>
          (case findPresetS h option of
             Inl e \<Rightarrow> Inl e
           | Inr (OwnPreset preset, h1) \<Rightarrow> attachPriorityS h1 preset
           | Inr (InheritedValue key, h1) \<Rightarrow> Inl TypeError
           | Inr (NoPreset, h1) \<Rightarrow>
               if option = StringValue ''default'' then
                 (let (r, h2) = newObject h1 [(''model'', Undefined),
                                              (''title'', StringValue ''Default'')]
                  in Inr (Reference r, h2))
               else
                 (case isNumericalDefinitionS h1 option of
                    Inl e \<Rightarrow> Inl e
                  | Inr True \<Rightarrow> Inr (Undefined, h1)
                  | Inr False \<Rightarrow> generatePixelPresetS h1 option)))"

fun mapThrowingS ::
  "(store \<Rightarrow> 'a \<Rightarrow> error + 'b \<times> store) \<Rightarrow> store \<Rightarrow> 'a list \<Rightarrow> error + 'b list \<times> store" where
  "mapThrowingS f h [] = Inr ([], h)"
| "mapThrowingS f h (x # xs) =
     (case f h x of
        Inl e \<Rightarrow> Inl e
      | Inr (y, h1) \<Rightarrow>
          (case mapThrowingS f h1 xs of Inl e \<Rightarrow> Inl e | Inr (ys, h2) \<Rightarrow> Inr (y # ys, h2)))"

definition normalizeOptionsS :: "store \<Rightarrow> js_value list \<Rightarrow> error + js_value list \<times> store" where
  "normalizeOptionsS h configuredOptions =
     (case mapThrowingS getOptionDefinitionS h configuredOptions of
        Inl e \<Rightarrow> Inl e
      | Inr (defs, h1) \<Rightarrow> Inr (filter truthyValue defs, h1))"
subsection \<open>Reading an option back from the store\<close>

text \<open>
  The option that an address of the store stands for, in the shape of the first model: the
  string held by \<^verbatim>\<open>title\<close> and by \<^verbatim>\<open>model\<close>, and the view with its name, classes, styles and
  priority. It serves to compare the two models.
\<close>

fun stringOf :: "js_value \<Rightarrow> string option" where
  "stringOf (StringValue s) = Some s"
| "stringOf Undefined = None"
| "stringOf (NumberValue n) = None"
| "stringOf (Reference r) = None"

fun priorityOf :: "js_value \<Rightarrow> int option" where
  "priorityOf (NumberValue (Finite q)) = Some \<lfloor>q\<rfloor>"
| "priorityOf (NumberValue NaN) = None"
| "priorityOf (NumberValue PosInfinity) = None"
| "priorityOf (NumberValue NegInfinity) = None"
| "priorityOf Undefined = None"
| "priorityOf (StringValue s) = None"
| "priorityOf (Reference r) = None"

definition property :: "store \<Rightarrow> js_value \<Rightarrow> string \<Rightarrow> js_value" where
  "property h v key = (case getProperty h v key of Inl e \<Rightarrow> Undefined | Inr x \<Rightarrow> x)"

fun readStyles :: "store \<Rightarrow> js_value \<Rightarrow> (string \<times> string option) list option" where
  "readStyles h (Reference r) = Some (map (\<lambda>(key, x). (key, stringOf x)) (h ! r))"
| "readStyles h Undefined = None"
| "readStyles h (StringValue s) = None"
| "readStyles h (NumberValue n) = None"

fun readView :: "store \<Rightarrow> js_value \<Rightarrow> view_definition option" where
  "readView h (Reference r) =
     Some \<lparr>name = String_of (stringOf (property h (Reference r) ''name'')),
           classes = stringOf (property h (Reference r) ''classes''),
           styles = readStyles h (property h (Reference r) ''styles''),
           priority = priorityOf (property h (Reference r) ''priority'')\<rparr>"
| "readView h Undefined = None"
| "readView h (StringValue s) = None"
| "readView h (NumberValue n) = None"

fun readOption :: "store \<Rightarrow> js_value \<Rightarrow> font_style_option option" where
  "readOption h (Reference r) =
     Some \<lparr>title = stringOf (property h (Reference r) ''title''),
           model = stringOf (property h (Reference r) ''model''),
           view = readView h (property h (Reference r) ''view'')\<rparr>"
| "readOption h Undefined = None"
| "readOption h (StringValue s) = None"
| "readOption h (NumberValue n) = None"


section \<open>Stand-ins for the engine's predicates\<close>

text \<open>
  The properties below hold for every \<^verbatim>\<open>isLength\<close> and \<^verbatim>\<open>isPercentage\<close>. Where an example
  needs a concrete pair, it takes these two: a length is a string that ends in \<^verbatim>\<open>px\<close>
  after at least one more character, and nothing is a percentage.
\<close>

definition pxLength :: "string \<Rightarrow> bool" where
  "pxLength s \<longleftrightarrow> 2 < length s \<and> drop (length s - 2) s = ''px''"

definition noPercentage :: "string \<Rightarrow> bool" where
  "noPercentage s \<longleftrightarrow> False"

section \<open>Properties of the legacy converter\<close>

lemma isDecimalDigit_not_white: "isDecimalDigit c \<Longrightarrow> \<not> isStrWhiteSpaceChar c"
  by (auto simp: isDecimalDigit_def isStrWhiteSpaceChar_def)

lemma isDecimalDigit_not_sign: "isDecimalDigit c \<Longrightarrow> c \<noteq> CHR ''+'' \<and> c \<noteq> CHR ''-''"
  by (auto simp: isDecimalDigit_def)

lemma sign_not_white: "\<not> isStrWhiteSpaceChar CHR ''+''" "\<not> isStrWhiteSpaceChar CHR ''-''"
  by (simp_all add: isStrWhiteSpaceChar_def)

lemma takeWhile_list_all: "list_all P xs \<Longrightarrow> takeWhile P xs = xs"
  by (induction xs) auto

lemma parseInt_digits:
  assumes "list_all isDecimalDigit ds" "ds \<noteq> []"
  shows "parseInt ds = Some (digitsValue ds)"
    and "parseInt (CHR ''+'' # ds) = Some (digitsValue ds)"
    and "parseInt (CHR ''-'' # ds) = Some (- digitsValue ds)"
proof -
  obtain c r where ds: "ds = c # r" using assms(2) by (cases ds) auto
  have c: "isDecimalDigit c" using assms(1) ds by simp
  have tw: "takeWhile isDecimalDigit ds = ds" using assms(1) by (rule takeWhile_list_all)
  have twr: "takeWhile isDecimalDigit r = r" using assms(1) ds by (simp add: takeWhile_list_all)
  show "parseInt ds = Some (digitsValue ds)"
    using c isDecimalDigit_not_white[OF c] isDecimalDigit_not_sign[OF c]
    by (simp add: parseInt_def ds Let_def twr)
  show "parseInt (CHR ''+'' # ds) = Some (digitsValue ds)"
    using assms(2) by (simp add: parseInt_def Let_def sign_not_white tw)
  show "parseInt (CHR ''-'' # ds) = Some (- digitsValue ds)"
    using assms(2) by (simp add: parseInt_def Let_def sign_not_white tw)
qed

lemma digitsValue_snoc: "digitsValue (ds @ [c]) = 10 * digitsValue ds + digitValue c"
  by (simp add: digitsValue_def)

lemma digitValue_range: "isDecimalDigit c \<Longrightarrow> 0 \<le> digitValue c \<and> digitValue c \<le> 9"
  by (auto simp: isDecimalDigit_def digitValue_def)

lemma digitsValue_range:
  "list_all isDecimalDigit ds \<Longrightarrow> 0 \<le> digitsValue ds \<and> digitsValue ds < 10 ^ length ds"
proof (induction ds rule: rev_induct)
  case Nil
  then show ?case by (simp add: digitsValue_def)
next
  case (snoc c ds)
  then have "0 \<le> digitsValue ds \<and> digitsValue ds < 10 ^ length ds"
    and "0 \<le> digitValue c \<and> digitValue c \<le> 9"
    by (simp_all add: digitValue_range)
  then show ?case by (simp add: digitsValue_snoc)
qed

lemma compatStylePattern_cases:
  assumes "compatStylePattern v"
  shows "\<exists>ds. list_all isDecimalDigit ds \<and> 1 \<le> length ds \<and> length ds \<le> 3 \<and>
    (v = ds \<or> v = CHR ''+'' # ds \<or> v = CHR ''-'' # ds)"
proof (cases v)
  case Nil
  then show ?thesis using assms by (simp add: compatStylePattern_def)
next
  case (Cons c r)
  show ?thesis
  proof (cases "c = CHR ''+'' \<or> c = CHR ''-''")
    case True
    then have "list_all isDecimalDigit r \<and> 1 \<le> length r \<and> length r \<le> 3"
      using assms Cons by (auto simp: compatStylePattern_def)
    then show ?thesis using True Cons by blast
  next
    case False
    then have "list_all isDecimalDigit v \<and> 1 \<le> length v \<and> length v \<le> 3"
      using assms Cons by (auto simp: compatStylePattern_def)
    then show ?thesis by blast
  qed
qed

lemma compatValueOfText_parsed:
  assumes "parseInt v = Some parsed"
  shows "compatValueOfText v =
    Some (styleFontStyle !
      nat (min (max (if v \<noteq> [] \<and> (hd v = CHR ''-'' \<or> hd v = CHR ''+'') then 3 + parsed else parsed) 0) 7))"
  using assms by (simp add: compatValueOfText_def Let_def styleFontStyle_def)

text \<open>
  What the callback computes from a text that fits the pattern (an optional sign and one
  to three digits \<open>ds\<close>): it reads the digits as an integer, adds it to the baseline 3 when
  the text begins with \<open>+\<close> or \<open>-\<close>, clamps the level into \<open>[0, 7]\<close> and returns the keyword
  of \<^verbatim>\<open>styleFontStyle\<close> at that index, which lies inside the table of eight entries. The
  texts \<^verbatim>\<open>-999\<close>, \<^verbatim>\<open>2\<close> and \<^verbatim>\<open>+2\<close> give the keywords at the indices 0, 2 and 5.
\<close>

lemma compatValueOfText_decodes:
  assumes "compatStylePattern v"
  shows "\<exists>ds level.
            list_all isDecimalDigit ds \<and> 1 \<le> length ds \<and> length ds \<le> 3 \<and>
            (v = ds \<and> level = digitsValue ds \<or>
             v = CHR ''+'' # ds \<and> level = 3 + digitsValue ds \<or>
             v = CHR ''-'' # ds \<and> level = 3 - digitsValue ds) \<and>
            nat (min (max level 0) 7) < length styleFontStyle \<and>
            compatValueOfText v = Some (styleFontStyle ! nat (min (max level 0) 7))"
proof -
  obtain ds where ds: "list_all isDecimalDigit ds" "1 \<le> length ds" "length ds \<le> 3"
    and v: "v = ds \<or> v = CHR ''+'' # ds \<or> v = CHR ''-'' # ds"
    using compatStylePattern_cases[OF assms(1)] by blast
  have ne: "ds \<noteq> []" using ds(2) by auto
  have hd: "isDecimalDigit (hd ds)" using ds(1) ne by (cases ds) auto
  have len: "length styleFontStyle = 8" by (simp add: styleFontStyle_def)
  have idx: "\<And>level::int. nat (min (max level 0) 7) < length styleFontStyle"
    unfolding len by auto
  from v have "\<exists>level.
            (v = ds \<and> level = digitsValue ds \<or>
             v = CHR ''+'' # ds \<and> level = 3 + digitsValue ds \<or>
             v = CHR ''-'' # ds \<and> level = 3 - digitsValue ds) \<and>
            compatValueOfText v = Some (styleFontStyle ! nat (min (max level 0) 7))"
  proof (elim disjE)
    assume e: "v = ds"
    have "\<not> (hd v = CHR ''-'' \<or> hd v = CHR ''+'')"
      using isDecimalDigit_not_sign[OF hd] e by auto
    then show ?thesis
      using compatValueOfText_parsed[of v "digitsValue ds"] parseInt_digits(1)[OF ds(1) ne] e
      by auto
  next
    assume e: "v = CHR ''+'' # ds"
    show ?thesis
      using compatValueOfText_parsed[of v "digitsValue ds"] parseInt_digits(2)[OF ds(1) ne] e
      by auto
  next
    assume e: "v = CHR ''-'' # ds"
    show ?thesis
      using compatValueOfText_parsed[of v "- digitsValue ds"] parseInt_digits(3)[OF ds(1) ne] e
      by auto
  qed
  then show ?thesis using ds idx by blast
qed

lemma compatValueOfText_examples:
  "compatValueOfText ''-999'' = Some (styleFontStyle ! 0)"
  "compatValueOfText ''2'' = Some (styleFontStyle ! 2)"
  "compatValueOfText ''+2'' = Some (styleFontStyle ! 5)"
  by code_simp+

lemma compatStylePattern_last:
  assumes "compatStylePattern s"
  shows "s \<noteq> [] \<and> isDecimalDigit (last s)"
proof -
  obtain ds where ds: "list_all isDecimalDigit ds" "1 \<le> length ds"
    and s: "s = ds \<or> s = CHR ''+'' # ds \<or> s = CHR ''-'' # ds"
    using compatStylePattern_cases[OF assms] by blast
  have ne: "ds \<noteq> []" using ds(2) by auto
  then have "isDecimalDigit (last ds)"
    using ds(1) by (simp add: list_all_iff)
  then show ?thesis using s ne by auto
qed

lemma stylesToString_last:
  "stylesToString stylesMap = [] \<or> last (stylesToString stylesMap) = CHR '';''"
  by (simp add: stylesToString_def)

lemma stylesToString_no_level: "\<not> compatStylePattern (stylesToString stylesMap)"
proof
  assume p: "compatStylePattern (stylesToString stylesMap)"
  then have "stylesToString stylesMap \<noteq> []" "isDecimalDigit (last (stylesToString stylesMap))"
    using compatStylePattern_last by blast+
  then have "isDecimalDigit CHR '';''"
    using stylesToString_last[of stylesMap] by auto
  then show False by (simp add: isDecimalDigit_def)
qed

text \<open>
  Claim C2 says that the legacy decoder turns every attribute text that fits the pattern
  into the keyword at the clamped level, \<^verbatim>\<open>-999\<close> into the one at index 0, and never fails.
  The callback does compute that from such a text (\<open>compatValueOfText\<close>, above). But the
  rule reads the text from the attribute \<^verbatim>\<open>style\<close>, which the engine hands out as the
  styles map in text form: no view element gives a text that fits the pattern, so the
  matcher of the rule accepts no element at all. The element built from
  \<^verbatim>\<open><font style="-999">\<close> has an empty styles map: its \<^verbatim>\<open>style\<close> attribute is \<^verbatim>\<open>undefined\<close>, the
  matcher rejects it, and the callback called on it throws a \<^verbatim>\<open>TypeError\<close> instead of
  returning the keyword at index 0.
\<close>

theorem legacy_rule_never_applies:
  "\<not> compatMatches viewElement \<and>
   getAttribute \<lparr>ve_name = ''font'', ve_attributes = [], ve_styles = []\<rparr> ''style'' = None \<and>
   \<not> compatMatches \<lparr>ve_name = ''font'', ve_attributes = [], ve_styles = []\<rparr> \<and>
   compatValue \<lparr>ve_name = ''font'', ve_attributes = [], ve_styles = []\<rparr> = Inl TypeError \<and>
   compatValueOfText ''-999'' = Some (styleFontStyle ! 0)"
proof -
  have never: "\<not> compatMatches viewElement"
    using stylesToString_no_level[of "ve_styles viewElement"]
    by (simp add: compatMatches_def getAttribute_def)
  have none: "getAttribute \<lparr>ve_name = ''font'', ve_attributes = [], ve_styles = []\<rparr> ''style'' = None"
    by (simp add: getAttribute_def stylesToString_def)
  have rejected: "\<not> compatMatches \<lparr>ve_name = ''font'', ve_attributes = [], ve_styles = []\<rparr>"
    by (simp add: compatMatches_def none)
  have throws: "compatValue \<lparr>ve_name = ''font'', ve_attributes = [], ve_styles = []\<rparr> = Inl TypeError"
    by (simp add: compatValue_def none)
  show ?thesis using never none rejected throws compatValueOfText_examples(1) by blast
qed

section \<open>Lemmas about the normaliser\<close>

lemma mapThrowing_append:
  "mapThrowing f (xs @ ys) =
     (case mapThrowing f xs of
        Inl e \<Rightarrow> Inl e
      | Inr as \<Rightarrow> (case mapThrowing f ys of Inl e \<Rightarrow> Inl e | Inr bs \<Rightarrow> Inr (as @ bs)))"
  by (induction xs) (auto split: sum.splits)

lemma map_filter_id_append:
  "List.map_filter id (as @ bs) = List.map_filter id as @ List.map_filter id bs"
  by (simp add: List.map_filter_def)

lemma findPreset_default: "findPreset (OptionString ''default'') = None"
  by code_simp

lemma getOptionDefinition_default:
  "getOptionDefinition (OptionString ''default'')
     = Inr (Some \<lparr>title = Some ''Default'', model = None, view = None\<rparr>)"
  by (simp add: getOptionDefinition_def findPreset_default)

lemma normalizeOptions_default_entry:
  "map_sum id (filter (\<lambda>item. truthy (model item))) (normalizeOptions (xs @ [OptionString ''default''] @ ys))
   = map_sum id (filter (\<lambda>item. truthy (model item))) (normalizeOptions (xs @ ys))"
  by (auto simp: normalizeOptions_def mapThrowing_append getOptionDefinition_default
      map_filter_id_append List.map_filter_simps truthy_def split: sum.splits)

lemma init_alt:
  "init isLength isPercentage config =
     (case map_sum id (filter (\<lambda>item. truthy (model item))) (normalizeOptions (options config)) of
        Inl e \<Rightarrow> Inl e
      | Inr opts \<Rightarrow>
          if supportAllValues config then
            (case prepareAnyValueConverters isLength isPercentage (buildDefinition FONT_STYLE opts) of
               Inl e \<Rightarrow> Inl e
             | Inr converters \<Rightarrow>
                 Inr \<lparr>allowedTextAttributes = [FONT_STYLE],
                      conversion = converters @ prepareCompatibilityConverter,
                      commands = [FONT_STYLE]\<rparr>)
          else
            Inr \<lparr>allowedTextAttributes = [FONT_STYLE],
                 conversion = [AttributeToElement (buildDefinition FONT_STYLE opts)],
                 commands = [FONT_STYLE]\<rparr>)"
  by (simp add: init_def Let_def split: sum.splits)

lemma init_default_entry:
  "init isLength isPercentage \<lparr>options = xs @ [OptionString ''default''] @ ys, supportAllValues = b\<rparr>
   = init isLength isPercentage \<lparr>options = xs @ ys, supportAllValues = b\<rparr>"
  unfolding init_alt by (simp add: normalizeOptions_default_entry del: append.simps cong: sum.case_cong)

lemma filter_model_values:
  "filter P (map model (filter (\<lambda>item. truthy (model item)) normalized))
   = filter P (filter truthy (map model normalized))"
  by (induction normalized) auto

lemma attachPriority_view:
  "view d = Some v \<Longrightarrow>
   attachPriority (OptionObject d) =
     Inr (if truthyPriority (priority v) then d else d\<lparr>view := Some (v\<lparr>priority := Some 7\<rparr>)\<rparr>)"
  by simp

lemma attachPriority_no_view: "view d = None \<Longrightarrow> attachPriority (OptionObject d) = Inl TypeError"
  by simp

lemma generatePixelPreset_eq:
  "generatePixelPreset option =
     Inr ((extendShortDefinition option)
            \<lparr>view := Some \<lparr>name = ''span'', classes = None,
                            styles = Some [(''font-style'', model (extendShortDefinition option))],
                            priority = Some 7\<rparr>\<rparr>)"
  by (simp add: generatePixelPreset_def Let_def truthyPriority_def)

lemma namedPresetsLookup_cases:
  assumes "namedPresetsLookup key = Some p"
  shows "(view p = None \<and> key \<in> set objectPrototypeKeys) \<or>
         (\<exists>v. view p = Some v \<and> priority v = Some 7 \<and> namedPresets key = Some p)"
  using assms
  by (auto simp: namedPresetsLookup_def namedPresets_def split: option.splits if_splits)

lemma findPreset_cases:
  assumes "findPreset option = Some p"
  shows "view p = None \<or> (\<exists>v. view p = Some v \<and> priority v = Some 7)"
  using assms namedPresetsLookup_cases
  by (fastforce simp: findPreset_def split: option.splits)

lemma getOptionDefinition_full:
  assumes "isFullItemDefinition option"
  shows "\<exists>d v. option = OptionObject d \<and> view d = Some v \<and>
           getOptionDefinition option =
             Inr (Some (if truthyPriority (priority v) then d
                        else d\<lparr>view := Some (v\<lparr>priority := Some 7\<rparr>)\<rparr>))"
proof (cases option)
  case (OptionObject d)
  then obtain v where v: "view d = Some v" using assms by auto
  show ?thesis
    using assms OptionObject v
    by (simp add: getOptionDefinition_def attachPriority_view[OF v])
qed (use assms in auto)

lemma getOptionDefinition_preset:
  assumes "\<not> isFullItemDefinition option" "findPreset option = Some p"
  shows "getOptionDefinition option = map_sum id Some (attachPriority (OptionObject p))"
  using assms by (simp add: getOptionDefinition_def)

lemma getOptionDefinition_numerical:
  assumes "reachesNumericalCheck option"
  shows "getOptionDefinition option =
           (case isNumericalDefinition option of
              Inl e \<Rightarrow> Inl e
            | Inr True \<Rightarrow> Inr None
            | Inr False \<Rightarrow> map_sum id Some (generatePixelPreset option))"
  using assms by (simp add: getOptionDefinition_def reachesNumericalCheck_def)

lemma getOptionDefinition_pixel:
  assumes "reachesPixelPreset option"
  shows "getOptionDefinition option =
     Inr (Some ((extendShortDefinition option)
            \<lparr>view := Some \<lparr>name = ''span'', classes = None,
                            styles = Some [(''font-style'', model (extendShortDefinition option))],
                            priority = Some 7\<rparr>\<rparr>))"
  using assms
  by (simp add: getOptionDefinition_numerical reachesPixelPreset_def generatePixelPreset_eq)

lemma getOptionDefinition_paths:
  "isFullItemDefinition option \<or>
   (\<not> isFullItemDefinition option \<and> (\<exists>p. findPreset option = Some p)) \<or>
   (\<not> isFullItemDefinition option \<and> findPreset option = None \<and> option = OptionString ''default'') \<or>
   reachesNumericalCheck option"
  by (auto simp: reachesNumericalCheck_def)

lemma isNumericalDefinition_error:
  "isNumericalDefinition option = Inl e \<longleftrightarrow>
     (\<exists>d. option = OptionObject d \<and> \<not> truthy (model d) \<and>
          e = CKEditorError ''font-style-invalid-definition'' (DefinitionData d))"
  by (cases option) auto

lemma getOptionDefinition_error_numerical:
  assumes "reachesNumericalCheck option"
  shows "getOptionDefinition option = Inl e \<longleftrightarrow>
     (\<exists>d. option = OptionObject d \<and> \<not> truthy (model d) \<and>
          e = CKEditorError ''font-style-invalid-definition'' (DefinitionData d))"
proof -
  have "getOptionDefinition option = Inl e \<longleftrightarrow> isNumericalDefinition option = Inl e"
    unfolding getOptionDefinition_numerical[OF assms]
    by (auto simp: generatePixelPreset_eq split: sum.splits bool.splits)
  then show ?thesis by (simp add: isNumericalDefinition_error)
qed

lemma getOptionDefinition_error:
  assumes "getOptionDefinition option = Inl e"
  shows "e = TypeError \<or>
         (reachesNumericalCheck option \<and>
          (\<exists>d. option = OptionObject d \<and> \<not> truthy (model d) \<and>
               e = CKEditorError ''font-style-invalid-definition'' (DefinitionData d)))"
proof -
  consider (full) "isFullItemDefinition option"
    | (preset) p where "\<not> isFullItemDefinition option" "findPreset option = Some p"
    | (dflt) "\<not> isFullItemDefinition option" "findPreset option = None" "option = OptionString ''default''"
    | (num) "reachesNumericalCheck option"
    using getOptionDefinition_paths[of option] by blast
  then show ?thesis
  proof cases
    case full
    then show ?thesis using getOptionDefinition_full[OF full] assms by auto
  next
    case preset
    then show ?thesis
      using assms getOptionDefinition_preset[OF preset]
      by (auto split: option.splits if_splits)
  next
    case dflt
    then show ?thesis using assms by (simp add: getOptionDefinition_def)
  next
    case num
    then show ?thesis using assms getOptionDefinition_error_numerical[OF num] by auto
  qed
qed

lemma getOptionDefinition_priority:
  assumes "getOptionDefinition option = Inr (Some opt)"
  shows "(view opt = None \<and> opt = \<lparr>title = Some ''Default'', model = None, view = None\<rparr>) \<or>
         (\<exists>v. view opt = Some v \<and> truthyPriority (priority v))"
proof -
  consider (full) "isFullItemDefinition option"
    | (preset) p where "\<not> isFullItemDefinition option" "findPreset option = Some p"
    | (dflt) "\<not> isFullItemDefinition option" "findPreset option = None" "option = OptionString ''default''"
    | (num) "reachesNumericalCheck option"
    using getOptionDefinition_paths[of option] by blast
  then show ?thesis
  proof cases
    case full
    then show ?thesis
      using getOptionDefinition_full[OF full] assms
      by (auto simp: truthyPriority_def split: if_splits)
  next
    case preset
    then show ?thesis
      using assms getOptionDefinition_preset[OF preset] findPreset_cases[OF preset(2)]
      by (auto simp: truthyPriority_def split: option.splits if_splits)
  next
    case dflt
    then show ?thesis using assms by (auto simp: getOptionDefinition_def)
  next
    case num
    then show ?thesis
      using assms
      by (auto simp: getOptionDefinition_numerical generatePixelPreset_eq truthyPriority_def
          split: sum.splits bool.splits)
  qed
qed

lemma mapThrowing_Inr_set:
  "mapThrowing f xs = Inr ys \<Longrightarrow> y \<in> set ys \<Longrightarrow> \<exists>x \<in> set xs. f x = Inr y"
proof (induction xs arbitrary: ys)
  case Nil
  then show ?case by simp
next
  case (Cons x xs)
  then show ?case by (fastforce split: sum.splits)
qed

lemma mapThrowing_Inl_iff:
  "mapThrowing f xs = Inl e \<longleftrightarrow>
     (\<exists>before x after. xs = before @ x # after \<and> (\<forall>y \<in> set before. \<not> isl (f y)) \<and> f x = Inl e)"
proof (induction xs)
  case Nil
  then show ?case by simp
next
  case (Cons a xs)
  show ?case
  proof (cases "f a")
    case (Inl e')
    show ?thesis
    proof
      assume "mapThrowing f (a # xs) = Inl e"
      then have "e' = e" using Inl by simp
      then have "a # xs = [] @ a # xs \<and> (\<forall>y \<in> set []. \<not> isl (f y)) \<and> f a = Inl e"
        using Inl by simp
      then show "\<exists>before x after. a # xs = before @ x # after \<and> (\<forall>y \<in> set before. \<not> isl (f y)) \<and> f x = Inl e"
        by blast
    next
      assume "\<exists>before x after. a # xs = before @ x # after \<and> (\<forall>y \<in> set before. \<not> isl (f y)) \<and> f x = Inl e"
      then obtain before x after where h: "a # xs = before @ x # after"
        "\<forall>y \<in> set before. \<not> isl (f y)" "f x = Inl e" by blast
      have "before = []"
      proof (rule ccontr)
        assume "before \<noteq> []"
        then have "a \<in> set before" using h(1) by (cases before) auto
        then show False using h(2) Inl by auto
      qed
      then have "x = a" using h(1) by simp
      then show "mapThrowing f (a # xs) = Inl e" using h(3) Inl by simp
    qed
  next
    case (Inr r)
    have step: "mapThrowing f (a # xs) = Inl e \<longleftrightarrow> mapThrowing f xs = Inl e"
      using Inr by (auto split: sum.splits)
    have "(\<exists>before x after. a # xs = before @ x # after \<and> (\<forall>y \<in> set before. \<not> isl (f y)) \<and> f x = Inl e)
      \<longleftrightarrow> (\<exists>before x after. xs = before @ x # after \<and> (\<forall>y \<in> set before. \<not> isl (f y)) \<and> f x = Inl e)"
    proof
      assume "\<exists>before x after. a # xs = before @ x # after \<and> (\<forall>y \<in> set before. \<not> isl (f y)) \<and> f x = Inl e"
      then obtain before x after where h: "a # xs = before @ x # after"
        "\<forall>y \<in> set before. \<not> isl (f y)" "f x = Inl e" by blast
      have "before \<noteq> []" using h(1) h(3) Inr by (cases before) auto
      then obtain b where b: "before = a # b" using h(1) by (cases before) auto
      then have "xs = b @ x # after \<and> (\<forall>y \<in> set b. \<not> isl (f y)) \<and> f x = Inl e"
        using h by auto
      then show "\<exists>before x after. xs = before @ x # after \<and> (\<forall>y \<in> set before. \<not> isl (f y)) \<and> f x = Inl e"
        by blast
    next
      assume "\<exists>before x after. xs = before @ x # after \<and> (\<forall>y \<in> set before. \<not> isl (f y)) \<and> f x = Inl e"
      then obtain before x after where h: "xs = before @ x # after"
        "\<forall>y \<in> set before. \<not> isl (f y)" "f x = Inl e" by blast
      then have "a # xs = (a # before) @ x # after \<and> (\<forall>y \<in> set (a # before). \<not> isl (f y)) \<and> f x = Inl e"
        using Inr by simp
      then show "\<exists>before x after. a # xs = before @ x # after \<and> (\<forall>y \<in> set before. \<not> isl (f y)) \<and> f x = Inl e"
        by blast
    qed
    then show ?thesis using step Cons.IH by simp
  qed
qed

lemma normalizeOptions_Inl_iff:
  "normalizeOptions xs = Inl e \<longleftrightarrow>
     (\<exists>before x after. xs = before @ x # after \<and>
        (\<forall>y \<in> set before. \<not> isl (getOptionDefinition y)) \<and> getOptionDefinition x = Inl e)"
  unfolding mapThrowing_Inl_iff[symmetric]
  by (simp add: normalizeOptions_def split: sum.splits)

lemma normalizeOptions_Inr_set:
  assumes "normalizeOptions xs = Inr ys" "opt \<in> set ys"
  shows "\<exists>x \<in> set xs. getOptionDefinition x = Inr (Some opt)"
proof -
  obtain defs where d: "mapThrowing getOptionDefinition xs = Inr defs" "ys = List.map_filter id defs"
    using assms(1) by (auto simp: normalizeOptions_def split: sum.splits)
  have "Some opt \<in> set defs"
    using assms(2) d(2) by (auto simp: List.map_filter_def)
  then show ?thesis using mapThrowing_Inr_set[OF d(1)] by blast
qed

lemma normalizeOptions_dropped:
  assumes "getOptionDefinition x = Inr None"
  shows "normalizeOptions (before @ x # after) = normalizeOptions (before @ after)"
  using assms
  by (auto simp: normalizeOptions_def mapThrowing_append map_filter_id_append
      List.map_filter_simps split: sum.splits)

lemma roundToDouble_not_NaN: "roundToDouble q \<noteq> NaN"
  by (simp add: roundToDouble_def Let_def)

lemma numberValue_not_NaN: "numberValue lit \<noteq> NaN"
  by (cases lit) (simp_all add: roundToDouble_not_NaN)

lemma parseFloat_NaN_iff:
  "isNaN (parseFloat s) \<longleftrightarrow> strDecimalLiteralPrefix (dropWhile isStrWhiteSpaceChar s) = None"
  by (simp add: isNaN_def parseFloat_def numberValue_not_NaN split: option.splits)

lemma dropWhile_white_digit:
  "ds \<noteq> [] \<Longrightarrow> list_all isDecimalDigit ds \<Longrightarrow> dropWhile isStrWhiteSpaceChar (ds @ rest) = ds @ rest"
  by (cases ds) (auto simp: isDecimalDigit_not_white)

lemma takeWhile_digit_prefix:
  "ds \<noteq> [] \<Longrightarrow> list_all isDecimalDigit ds \<Longrightarrow> takeWhile isDecimalDigit (ds @ rest) \<noteq> []"
  by (cases ds) auto

lemma parseFloat_digit_prefix:
  assumes "ds \<noteq> []" "list_all isDecimalDigit ds"
  shows "\<not> isNaN (parseFloat (ds @ rest))"
proof -
  obtain c r where ds: "ds = c # r" using assms(1) by (cases ds) auto
  have c: "isDecimalDigit c" using assms(2) ds by simp
  have sign: "c \<noteq> CHR ''+''" "c \<noteq> CHR ''-''" using isDecimalDigit_not_sign[OF c] by auto
  have tw: "takeWhile isDecimalDigit (c # r @ rest) \<noteq> []" using c by simp
  have "strDecimalLiteralPrefix (ds @ rest) \<noteq> None"
    using sign tw unfolding strDecimalLiteralPrefix_def ds Let_def
    by (simp del: takeWhile.simps dropWhile.simps)
  then show ?thesis
    by (simp add: parseFloat_NaN_iff dropWhile_white_digit[OF assms])
qed

lemma takeWhile_exact:
  "list_all P ds \<Longrightarrow> rest = [] \<or> \<not> P (hd rest) \<Longrightarrow> takeWhile P (ds @ rest) = ds"
proof (induction ds)
  case Nil
  then show ?case by (cases rest) auto
next
  case (Cons a ds)
  then show ?case by simp
qed

lemma dropWhile_exact:
  "list_all P ds \<Longrightarrow> rest = [] \<or> \<not> P (hd rest) \<Longrightarrow> dropWhile P (ds @ rest) = rest"
proof (induction ds)
  case Nil
  then show ?case by (cases rest) auto
next
  case (Cons a ds)
  then show ?case by simp
qed

lemma parseFloat_digits_then_rest:
  assumes "ds \<noteq> []" "list_all isDecimalDigit ds"
    and "rest = [] \<or> (\<not> isDecimalDigit (hd rest) \<and> hd rest \<notin> {CHR ''.'', CHR ''e'', CHR ''E''})"
  shows "parseFloat (ds @ rest) = roundToDouble (of_int (digitsValue ds))"
proof -
  obtain c r where ds: "ds = c # r" using assms(1) by (cases ds) auto
  have c: "isDecimalDigit c" using assms(2) ds by simp
  have sign: "c \<noteq> CHR ''+''" "c \<noteq> CHR ''-''" using isDecimalDigit_not_sign[OF c] by auto
  have inf: "take 8 (ds @ rest) \<noteq> ''Infinity''"
    using c unfolding ds by (auto simp: isDecimalDigit_def)
  have r: "rest = [] \<or> \<not> isDecimalDigit (hd rest)" using assms(3) by auto
  have tw: "takeWhile isDecimalDigit (ds @ rest) = ds" by (rule takeWhile_exact[OF assms(2) r])
  have dw: "dropWhile isDecimalDigit (ds @ rest) = rest" by (rule dropWhile_exact[OF assms(2) r])
  have ex: "exponentPart rest = 0"
    using assms(3) by (cases rest) (auto simp: exponentPart_def)
  have dot: "(rest \<noteq> [] \<and> hd rest = CHR ''.'') = False" using assms(3) by auto
  have hdds: "hd (ds @ rest) = c" "ds @ rest \<noteq> []" using ds by auto
  have "strDecimalLiteralPrefix (ds @ rest) = Some (DecimalLiteral False (digitsValue ds) 0)"
    unfolding strDecimalLiteralPrefix_def Let_def
    using sign inf assms(1) by (simp add: hdds tw dw ex dot)
  then show ?thesis
    by (simp add: parseFloat_def dropWhile_white_digit[OF assms(1,2)] powInt_def)
qed

lemma namedPresetsLookup_keys:
  "namedPresetsLookup key \<noteq> None \<Longrightarrow>
   key \<in> set ([''tiny'', ''small'', ''big'', ''huge''] @ objectPrototypeKeys)"
  by (auto simp: namedPresetsLookup_def namedPresets_def split: option.splits if_splits)

lemma preset_keys_start:
  "list_all (\<lambda>key. \<not> isDecimalDigit (hd key))
     ([''tiny'', ''small'', ''big'', ''huge''] @ objectPrototypeKeys)"
  by code_simp

lemma namedPresetsLookup_digit:
  assumes "isDecimalDigit (hd s)"
  shows "namedPresetsLookup s = None"
proof (rule ccontr)
  assume "namedPresetsLookup s \<noteq> None"
  then have "s \<in> set ([''tiny'', ''small'', ''big'', ''huge''] @ objectPrototypeKeys)"
    by (rule namedPresetsLookup_keys)
  then have "\<not> isDecimalDigit (hd s)"
    using preset_keys_start unfolding list_all_iff by blast
  then show False using assms by simp
qed

lemma namedPresetsLookup_undefined: "namedPresetsLookup ''undefined'' = None"
  by code_simp

lemma reachesPixelPreset_digit_prefix:
  assumes "ds \<noteq> []" "list_all isDecimalDigit ds"
  shows "reachesPixelPreset (OptionString (ds @ rest))"
proof -
  obtain c r where ds: "ds = c # r" using assms(1) by (cases ds) auto
  have c: "isDecimalDigit c" using assms(2) ds by simp
  have l: "namedPresetsLookup (ds @ rest) = None"
    by (rule namedPresetsLookup_digit) (use c ds in auto)
  have d: "ds @ rest \<noteq> ''default''" using c ds by (auto simp: isDecimalDigit_def)
  show ?thesis
    using l d parseFloat_digit_prefix[OF assms]
    by (simp add: reachesPixelPreset_def reachesNumericalCheck_def findPreset_def
        String_of_def namedPresetsLookup_undefined)
qed

lemma normalizeOptions_single:
  "getOptionDefinition x = Inr (Some opt) \<Longrightarrow> normalizeOptions [x] = Inr [opt]"
  by (simp add: normalizeOptions_def List.map_filter_simps)

lemma normalizeOptions_no_presets_error:
  "normalizeOptions xs \<noteq> Inl (CKEditorError errorName (PresetsData presets))"
proof
  assume "normalizeOptions xs = Inl (CKEditorError errorName (PresetsData presets))"
  then obtain x where "getOptionDefinition x = Inl (CKEditorError errorName (PresetsData presets))"
    unfolding normalizeOptions_Inl_iff by blast
  from getOptionDefinition_error[OF this] show False by auto
qed

lemma findPreset_model:
  assumes "findPreset option = Some p" "view p \<noteq> None"
  shows "truthy (model p)"
proof -
  obtain key where "namedPresetsLookup key = Some p"
    using assms(1) by (auto simp: findPreset_def split: option.splits)
  then show ?thesis
    using assms(2)
    by (auto simp: namedPresetsLookup_def namedPresets_def truthy_def split: option.splits if_splits)
qed

lemma getOptionDefinition_model:
  assumes "getOptionDefinition option = Inr (Some opt)"
  shows "opt = \<lparr>title = Some ''Default'', model = None, view = None\<rparr> \<or>
         (truthy (model opt) \<and> view opt \<noteq> None)"
proof -
  consider (full) "isFullItemDefinition option"
    | (preset) p where "\<not> isFullItemDefinition option" "findPreset option = Some p"
    | (dflt) "\<not> isFullItemDefinition option" "findPreset option = None" "option = OptionString ''default''"
    | (num) "reachesNumericalCheck option"
    using getOptionDefinition_paths[of option] by blast
  then show ?thesis
  proof cases
    case full
    then show ?thesis
      using getOptionDefinition_full[OF full] assms by (auto split: if_splits)
  next
    case preset
    show ?thesis
    proof (cases "view p")
      case None
      then show ?thesis using assms getOptionDefinition_preset[OF preset] by simp
    next
      case (Some v)
      then have "truthy (model p)" using findPreset_model[OF preset(2)] by simp
      then show ?thesis
        using assms getOptionDefinition_preset[OF preset] Some by (auto split: if_splits)
    qed
  next
    case dflt
    then show ?thesis using assms by (auto simp: getOptionDefinition_def)
  next
    case num
    show ?thesis
    proof (cases "isNumericalDefinition option")
      case (Inl e)
      then show ?thesis using assms by (simp add: getOptionDefinition_numerical[OF num])
    next
      case (Inr b)
      then have r: "reachesPixelPreset option"
        using assms num by (cases b) (auto simp: getOptionDefinition_numerical reachesPixelPreset_def)
      have "truthy (model (extendShortDefinition option))"
        using r by (cases option) (auto simp: reachesPixelPreset_def truthy_def split: if_splits)
      then show ?thesis using assms getOptionDefinition_pixel[OF r] by auto
    qed
  qed
qed

lemma normalizeOptions_models:
  assumes "normalizeOptions xs = Inr normalized"
  shows "filter (\<lambda>item. truthy (model item)) normalized
           = filter (\<lambda>item. model item \<noteq> None) normalized"
    and "filter (\<lambda>item. truthy (model item)) normalized
           = filter (\<lambda>item. item \<noteq> \<lparr>title = Some ''Default'', model = None, view = None\<rparr>)
               normalized"
proof -
  have each: "\<And>opt. opt \<in> set normalized \<Longrightarrow>
      opt = \<lparr>title = Some ''Default'', model = None, view = None\<rparr> \<or>
      (truthy (model opt) \<and> view opt \<noteq> None)"
    using normalizeOptions_Inr_set[OF assms] getOptionDefinition_model by blast
  have defined: "\<And>opt. opt \<in> set normalized \<Longrightarrow> truthy (model opt) \<longleftrightarrow> model opt \<noteq> None"
  proof -
    fix opt
    assume "opt \<in> set normalized"
    from each[OF this] show "truthy (model opt) \<longleftrightarrow> model opt \<noteq> None"
      by (auto simp: truthy_def)
  qed
  have sentinel: "\<And>opt. opt \<in> set normalized \<Longrightarrow>
      truthy (model opt) \<longleftrightarrow> opt \<noteq> \<lparr>title = Some ''Default'', model = None, view = None\<rparr>"
  proof -
    fix opt
    assume "opt \<in> set normalized"
    from each[OF this]
    show "truthy (model opt) \<longleftrightarrow> opt \<noteq> \<lparr>title = Some ''Default'', model = None, view = None\<rparr>"
      by (auto simp: truthy_def)
  qed
  show "filter (\<lambda>item. truthy (model item)) normalized
           = filter (\<lambda>item. model item \<noteq> None) normalized"
    by (rule filter_cong) (simp_all add: defined)
  show "filter (\<lambda>item. truthy (model item)) normalized
           = filter (\<lambda>item. item \<noteq> \<lparr>title = Some ''Default'', model = None, view = None\<rparr>)
               normalized"
    by (rule filter_cong) (simp_all add: sentinel)
qed

section \<open>Properties of the normaliser\<close>

text \<open>
  Claim C5, as the code has it. For an option that gets as far as
  \<^verbatim>\<open>isNumericalDefinition\<close>, \<^verbatim>\<open>getOptionDefinition\<close> throws exactly when the option is an
  object whose \<^verbatim>\<open>model\<close> is missing or empty, and the error is
  \<^verbatim>\<open>font-style-invalid-definition\<close> with that object as its data. \<^verbatim>\<open>normalizeOptions\<close>
  throws this error exactly when the first option whose processing fails is such an object.
  A string or a number that gets as far and does not parse to a number gives
  \<^verbatim>\<open>undefined\<close>, and the list is normalised as if the element were not there. The example
  \<^verbatim>\<open>normalizeOptions( [ { title: 'X' } ] )\<close> throws the error.
\<close>

theorem invalid_definition_error:
  "(reachesNumericalCheck option \<longrightarrow>
      (getOptionDefinition option = Inl e \<longleftrightarrow>
         (\<exists>d. option = OptionObject d \<and> (model d = None \<or> model d = Some []) \<and>
              e = CKEditorError ''font-style-invalid-definition'' (DefinitionData d)))) \<and>
   (normalizeOptions configuredOptions = Inl (CKEditorError errorName errorData) \<longleftrightarrow>
      (\<exists>before d after.
          configuredOptions = before @ OptionObject d # after \<and>
          (\<forall>x \<in> set before. \<not> isl (getOptionDefinition x)) \<and>
          reachesNumericalCheck (OptionObject d) \<and> (model d = None \<or> model d = Some []) \<and>
          errorName = ''font-style-invalid-definition'' \<and> errorData = DefinitionData d)) \<and>
   (reachesNumericalCheck (OptionString s) \<and> isNaN (parseFloat s) \<longrightarrow>
      getOptionDefinition (OptionString s) = Inr None \<and>
      normalizeOptions (xs @ OptionString s # ys) = normalizeOptions (xs @ ys)) \<and>
   (reachesNumericalCheck (OptionNumber n) \<and> isNaN (parseFloat (numberToString n)) \<longrightarrow>
      getOptionDefinition (OptionNumber n) = Inr None \<and>
      normalizeOptions (xs @ OptionNumber n # ys) = normalizeOptions (xs @ ys)) \<and>
   normalizeOptions [OptionObject \<lparr>title = Some ''X'', model = None, view = None\<rparr>]
     = Inl (CKEditorError ''font-style-invalid-definition''
             (DefinitionData \<lparr>title = Some ''X'', model = None, view = None\<rparr>))"
proof -
  have falsy: "\<And>d. (\<not> truthy (model d)) = (model d = None \<or> model d = Some [])"
    by (auto simp: truthy_def)
  have elem: "reachesNumericalCheck option \<longrightarrow>
      (getOptionDefinition option = Inl e \<longleftrightarrow>
         (\<exists>d. option = OptionObject d \<and> (model d = None \<or> model d = Some []) \<and>
              e = CKEditorError ''font-style-invalid-definition'' (DefinitionData d)))"
    using getOptionDefinition_error_numerical[of option e] by (simp add: falsy)
  have whole: "normalizeOptions configuredOptions = Inl (CKEditorError errorName errorData) \<longleftrightarrow>
      (\<exists>before d after.
          configuredOptions = before @ OptionObject d # after \<and>
          (\<forall>x \<in> set before. \<not> isl (getOptionDefinition x)) \<and>
          reachesNumericalCheck (OptionObject d) \<and> (model d = None \<or> model d = Some []) \<and>
          errorName = ''font-style-invalid-definition'' \<and> errorData = DefinitionData d)"
    (is "?L \<longleftrightarrow> ?R")
  proof
    assume ?L
    then obtain before x after where h: "configuredOptions = before @ x # after"
      "\<forall>y \<in> set before. \<not> isl (getOptionDefinition y)"
      "getOptionDefinition x = Inl (CKEditorError errorName errorData)"
      unfolding normalizeOptions_Inl_iff by blast
    from getOptionDefinition_error[OF h(3)]
    obtain d where d: "reachesNumericalCheck x" "x = OptionObject d" "\<not> truthy (model d)"
      "CKEditorError errorName errorData
         = CKEditorError ''font-style-invalid-definition'' (DefinitionData d)"
      by auto
    then show ?R using h(1,2) by (auto simp: falsy)
  next
    assume ?R
    then obtain before d after where h: "configuredOptions = before @ OptionObject d # after"
      "\<forall>x \<in> set before. \<not> isl (getOptionDefinition x)"
      "reachesNumericalCheck (OptionObject d)" "model d = None \<or> model d = Some []"
      "errorName = ''font-style-invalid-definition''" "errorData = DefinitionData d"
      by blast
    have "getOptionDefinition (OptionObject d) = Inl (CKEditorError errorName errorData)"
      using getOptionDefinition_error_numerical[OF h(3)] h(4,5,6) by (simp add: falsy)
    then show ?L unfolding normalizeOptions_Inl_iff using h(1,2) by blast
  qed
  have str: "reachesNumericalCheck (OptionString s) \<and> isNaN (parseFloat s) \<longrightarrow>
      getOptionDefinition (OptionString s) = Inr None \<and>
      normalizeOptions (xs @ OptionString s # ys) = normalizeOptions (xs @ ys)"
    by (auto simp: getOptionDefinition_numerical intro: normalizeOptions_dropped)
  have num: "reachesNumericalCheck (OptionNumber n) \<and> isNaN (parseFloat (numberToString n)) \<longrightarrow>
      getOptionDefinition (OptionNumber n) = Inr None \<and>
      normalizeOptions (xs @ OptionNumber n # ys) = normalizeOptions (xs @ ys)"
    by (auto simp: getOptionDefinition_numerical intro: normalizeOptions_dropped)
  have ex: "normalizeOptions [OptionObject \<lparr>title = Some ''X'', model = None, view = None\<rparr>]
     = Inl (CKEditorError ''font-style-invalid-definition''
             (DefinitionData \<lparr>title = Some ''X'', model = None, view = None\<rparr>))"
    by code_simp
  show ?thesis using elem whole str num ex by blast
qed

text \<open>
  Claim C5, as stated, ties the error to an object without a \<^verbatim>\<open>model\<close> field. The object
  \<^verbatim>\<open>{ title: 'X', model: '' }\<close> has the field, gets as far as \<^verbatim>\<open>isNumericalDefinition\<close> and
  makes \<^verbatim>\<open>normalizeOptions\<close> throw the error all the same: the test is \<^verbatim>\<open>!definition.model\<close>.
\<close>

theorem invalid_definition_error_empty_model:
  "model \<lparr>title = Some ''X'', model = Some [], view = None\<rparr> \<noteq> None \<and>
   reachesNumericalCheck (OptionObject \<lparr>title = Some ''X'', model = Some [], view = None\<rparr>) \<and>
   normalizeOptions [OptionObject \<lparr>title = Some ''X'', model = Some [], view = None\<rparr>]
     = Inl (CKEditorError ''font-style-invalid-definition''
             (DefinitionData \<lparr>title = Some ''X'', model = Some [], view = None\<rparr>))"
  by code_simp

text \<open>
  Claim C5, as the code has it, at the object \<^verbatim>\<open>{ title: 'X' }\<close>, the string \<^verbatim>\<open>'abc'\<close>
  between two presets, and the number \<^verbatim>\<open>NaN\<close>.
\<close>

theorem invalid_definition_error_witness:
  "reachesNumericalCheck (OptionObject \<lparr>title = Some ''X'', model = None, view = None\<rparr>) \<and>
   getOptionDefinition (OptionObject \<lparr>title = Some ''X'', model = None, view = None\<rparr>)
     = Inl (CKEditorError ''font-style-invalid-definition''
             (DefinitionData \<lparr>title = Some ''X'', model = None, view = None\<rparr>)) \<and>
   reachesNumericalCheck (OptionString ''abc'') \<and> isNaN (parseFloat ''abc'') \<and>
   getOptionDefinition (OptionString ''abc'') = Inr None \<and>
   normalizeOptions ([OptionString ''tiny''] @ OptionString ''abc'' # [OptionString ''huge''])
     = normalizeOptions ([OptionString ''tiny''] @ [OptionString ''huge'']) \<and>
   reachesNumericalCheck (OptionNumber NaN) \<and> isNaN (parseFloat (numberToString NaN)) \<and>
   getOptionDefinition (OptionNumber NaN) = Inr None"
proof -
  let ?d = "\<lparr>title = Some ''X'', model = None, view = None\<rparr>"
  note t = invalid_definition_error[where option = "OptionObject ?d"
      and e = "CKEditorError ''font-style-invalid-definition'' (DefinitionData ?d)"
      and s = "''abc''" and n = NaN
      and xs = "[OptionString ''tiny'']" and ys = "[OptionString ''huge'']"]
  have r1: "reachesNumericalCheck (OptionObject ?d)" by code_simp
  have r2: "reachesNumericalCheck (OptionString ''abc'') \<and> isNaN (parseFloat ''abc'')" by code_simp
  have r3: "reachesNumericalCheck (OptionNumber NaN) \<and> isNaN (parseFloat (numberToString NaN))"
    by code_simp
  have m: "model ?d = None \<or> model ?d = Some []" by simp
  note element = t[THEN conjunct1]
  note string = t[THEN conjunct2, THEN conjunct2, THEN conjunct1]
  note number = t[THEN conjunct2, THEN conjunct2, THEN conjunct2, THEN conjunct1]
  have g1: "getOptionDefinition (OptionObject ?d)
     = Inl (CKEditorError ''font-style-invalid-definition'' (DefinitionData ?d))"
    using element r1 m by blast
  have g2: "getOptionDefinition (OptionString ''abc'') = Inr None \<and>
      normalizeOptions ([OptionString ''tiny''] @ OptionString ''abc'' # [OptionString ''huge''])
        = normalizeOptions ([OptionString ''tiny''] @ [OptionString ''huge''])"
    using string r2 by blast
  have g3: "getOptionDefinition (OptionNumber NaN) = Inr None"
    using number r3 by blast
  show ?thesis using r1 r2 r3 g1 g2 g3 by blast
qed

text \<open>
  Claim C6. \<^verbatim>\<open>normalizeOptions( [ 12 ] )\<close> is one option with the model \<^verbatim>\<open>12px\<close>,
  \<^verbatim>\<open>normalizeOptions( [ '12.5' ] )\<close> one option with the model \<^verbatim>\<open>12.5px\<close>, and
  \<^verbatim>\<open>normalizeOptions( [ 'abc' ] )\<close> is empty. The parsing reads a numeric prefix: a string
  that begins with a digit always parses and gives an option, as \<^verbatim>\<open>'12abc'\<close> does with the
  model \<^verbatim>\<open>12px\<close>; and when what follows the digits cannot continue a number literal, it
  changes nothing in the number parsed.
\<close>

theorem numeric_synthesis_examples:
  "normalizeOptions [OptionNumber (Finite 12)]
     = Inr [\<lparr>title = Some ''12'', model = Some ''12px'',
              view = Some \<lparr>name = ''span'', classes = None,
                            styles = Some [(''font-style'', Some ''12px'')],
                            priority = Some 7\<rparr>\<rparr>] \<and>
   normalizeOptions [OptionString ''12.5'']
     = Inr [\<lparr>title = Some ''12.5'', model = Some ''12.5px'',
              view = Some \<lparr>name = ''span'', classes = None,
                            styles = Some [(''font-style'', Some ''12.5px'')],
                            priority = Some 7\<rparr>\<rparr>] \<and>
   normalizeOptions [OptionString ''abc''] = Inr [] \<and>
   normalizeOptions [OptionString ''12abc'']
     = Inr [\<lparr>title = Some ''12abc'', model = Some ''12px'',
              view = Some \<lparr>name = ''span'', classes = None,
                            styles = Some [(''font-style'', Some ''12px'')],
                            priority = Some 7\<rparr>\<rparr>] \<and>
   (ds \<noteq> [] \<and> list_all isDecimalDigit ds \<longrightarrow>
      \<not> isNaN (parseFloat (ds @ rest)) \<and>
      normalizeOptions [OptionString (ds @ rest)]
        = Inr [\<lparr>title = Some (ds @ rest),
                 model = Some (numberToString (parseFloat (ds @ rest)) @ ''px''),
                 view = Some \<lparr>name = ''span'', classes = None,
                               styles = Some [(''font-style'',
                                               Some (numberToString (parseFloat (ds @ rest)) @ ''px''))],
                               priority = Some 7\<rparr>\<rparr>]) \<and>
   (ds \<noteq> [] \<and> list_all isDecimalDigit ds \<and>
    (rest = [] \<or> (\<not> isDecimalDigit (hd rest) \<and> hd rest \<notin> {CHR ''.'', CHR ''e'', CHR ''E''})) \<longrightarrow>
      parseFloat (ds @ rest) = parseFloat ds)"
proof -
  have a: "normalizeOptions [OptionNumber (Finite 12)]
     = Inr [\<lparr>title = Some ''12'', model = Some ''12px'',
              view = Some \<lparr>name = ''span'', classes = None,
                            styles = Some [(''font-style'', Some ''12px'')],
                            priority = Some 7\<rparr>\<rparr>]"
    by code_simp
  have b: "normalizeOptions [OptionString ''12.5'']
     = Inr [\<lparr>title = Some ''12.5'', model = Some ''12.5px'',
              view = Some \<lparr>name = ''span'', classes = None,
                            styles = Some [(''font-style'', Some ''12.5px'')],
                            priority = Some 7\<rparr>\<rparr>]"
    by code_simp
  have c: "normalizeOptions [OptionString ''abc''] = Inr []"
    by code_simp
  have d: "normalizeOptions [OptionString ''12abc'']
     = Inr [\<lparr>title = Some ''12abc'', model = Some ''12px'',
              view = Some \<lparr>name = ''span'', classes = None,
                            styles = Some [(''font-style'', Some ''12px'')],
                            priority = Some 7\<rparr>\<rparr>]"
    by code_simp
  have e: "ds \<noteq> [] \<and> list_all isDecimalDigit ds \<longrightarrow>
      \<not> isNaN (parseFloat (ds @ rest)) \<and>
      normalizeOptions [OptionString (ds @ rest)]
        = Inr [\<lparr>title = Some (ds @ rest),
                 model = Some (numberToString (parseFloat (ds @ rest)) @ ''px''),
                 view = Some \<lparr>name = ''span'', classes = None,
                               styles = Some [(''font-style'',
                                               Some (numberToString (parseFloat (ds @ rest)) @ ''px''))],
                               priority = Some 7\<rparr>\<rparr>]"
  proof
    assume h: "ds \<noteq> [] \<and> list_all isDecimalDigit ds"
    then have r: "reachesPixelPreset (OptionString (ds @ rest))"
      by (simp add: reachesPixelPreset_digit_prefix)
    have "normalizeOptions [OptionString (ds @ rest)]
        = Inr [\<lparr>title = Some (ds @ rest),
                 model = Some (numberToString (parseFloat (ds @ rest)) @ ''px''),
                 view = Some \<lparr>name = ''span'', classes = None,
                               styles = Some [(''font-style'',
                                               Some (numberToString (parseFloat (ds @ rest)) @ ''px''))],
                               priority = Some 7\<rparr>\<rparr>]"
      by (rule normalizeOptions_single) (simp add: getOptionDefinition_pixel[OF r])
    then show "\<not> isNaN (parseFloat (ds @ rest)) \<and>
      normalizeOptions [OptionString (ds @ rest)]
        = Inr [\<lparr>title = Some (ds @ rest),
                 model = Some (numberToString (parseFloat (ds @ rest)) @ ''px''),
                 view = Some \<lparr>name = ''span'', classes = None,
                               styles = Some [(''font-style'',
                                               Some (numberToString (parseFloat (ds @ rest)) @ ''px''))],
                               priority = Some 7\<rparr>\<rparr>]"
      using h parseFloat_digit_prefix by blast
  qed
  have f: "ds \<noteq> [] \<and> list_all isDecimalDigit ds \<and>
    (rest = [] \<or> (\<not> isDecimalDigit (hd rest) \<and> hd rest \<notin> {CHR ''.'', CHR ''e'', CHR ''E''})) \<longrightarrow>
      parseFloat (ds @ rest) = parseFloat ds"
  proof
    assume h: "ds \<noteq> [] \<and> list_all isDecimalDigit ds \<and>
      (rest = [] \<or> (\<not> isDecimalDigit (hd rest) \<and> hd rest \<notin> {CHR ''.'', CHR ''e'', CHR ''E''}))"
    have "parseFloat (ds @ rest) = roundToDouble (of_int (digitsValue ds))"
      using h by (intro parseFloat_digits_then_rest) auto
    moreover have "parseFloat (ds @ []) = roundToDouble (of_int (digitsValue ds))"
      using h by (intro parseFloat_digits_then_rest) auto
    ultimately show "parseFloat (ds @ rest) = parseFloat ds" by simp
  qed
  show ?thesis using a b c d e f by blast
qed

text \<open>
  Claim C6, at the digits \<^verbatim>\<open>12\<close> followed by \<^verbatim>\<open>px\<close>.
\<close>

theorem numeric_synthesis_examples_witness:
  "''12'' \<noteq> [] \<and> list_all isDecimalDigit ''12'' \<and>
   (\<not> isDecimalDigit (hd ''px'') \<and> hd ''px'' \<notin> {CHR ''.'', CHR ''e'', CHR ''E''}) \<and>
   \<not> isNaN (parseFloat ''12px'') \<and>
   parseFloat ''12px'' = parseFloat ''12'' \<and>
   normalizeOptions [OptionString ''12px'']
     = Inr [\<lparr>title = Some ''12px'', model = Some ''12px'',
              view = Some \<lparr>name = ''span'', classes = None,
                            styles = Some [(''font-style'', Some ''12px'')],
                            priority = Some 7\<rparr>\<rparr>]"
proof -
  have h: "''12'' \<noteq> [] \<and> list_all isDecimalDigit ''12''"
    by (simp add: isDecimalDigit_def)
  have r: "\<not> isDecimalDigit (hd ''px'') \<and> hd ''px'' \<notin> {CHR ''.'', CHR ''e'', CHR ''E''}"
    by (simp add: isDecimalDigit_def)
  have v: "numberToString (parseFloat ''12'') = ''12''" by code_simp
  have p: "parseFloat (''12'' @ ''px'') = parseFloat ''12''"
    using numeric_synthesis_examples[of "''12''" "''px''"] h r by blast
  have n: "\<not> isNaN (parseFloat (''12'' @ ''px'')) \<and>
      normalizeOptions [OptionString (''12'' @ ''px'')]
        = Inr [\<lparr>title = Some (''12'' @ ''px''),
                 model = Some (numberToString (parseFloat (''12'' @ ''px'')) @ ''px''),
                 view = Some \<lparr>name = ''span'', classes = None,
                               styles = Some [(''font-style'',
                                               Some (numberToString (parseFloat (''12'' @ ''px'')) @ ''px''))],
                               priority = Some 7\<rparr>\<rparr>]"
    using numeric_synthesis_examples[of "''12''" "''px''"] h by blast
  show ?thesis
    using h r n p v by simp
qed

text \<open>
  Claim C7, as the code has it. For every option that gets as far as
  \<^verbatim>\<open>generatePixelPreset\<close>: a number or a string gets the model made of its parsed number
  followed by \<^verbatim>\<open>px\<close> and its own text as the title; an object keeps its \<^verbatim>\<open>model\<close> and its
  \<^verbatim>\<open>title\<close> as they are. In both cases the model is a non-empty string and the view is a
  \<^verbatim>\<open>span\<close> whose styles map \<^verbatim>\<open>font-style\<close> to that model, with the priority 7.
\<close>

theorem pixel_preset_model:
  assumes "reachesPixelPreset option"
  shows "\<exists>opt. getOptionDefinition option = Inr (Some opt) \<and>
           model opt =
             (case option of
                OptionString s \<Rightarrow> Some (numberToString (parseFloat s) @ ''px'')
              | OptionNumber n \<Rightarrow> Some (numberToString (parseFloat (numberToString n)) @ ''px'')
              | OptionObject d \<Rightarrow> model d) \<and>
           title opt =
             (case option of
                OptionString s \<Rightarrow> Some s
              | OptionNumber n \<Rightarrow> Some (numberToString n)
              | OptionObject d \<Rightarrow> title d) \<and>
           model opt \<noteq> None \<and> model opt \<noteq> Some [] \<and>
           view opt = Some \<lparr>name = ''span'', classes = None,
                             styles = Some [(''font-style'', model opt)], priority = Some 7\<rparr>"
proof -
  have m: "model (extendShortDefinition option) \<noteq> None \<and> model (extendShortDefinition option) \<noteq> Some []"
    using assms
    by (cases option) (auto simp: reachesPixelPreset_def truthy_def split: if_splits)
  show ?thesis
    using m getOptionDefinition_pixel[OF assms] by (cases option) simp_all
qed

text \<open>
  Claim C7, as stated, gives every such option the model made of its parsed number followed
  by \<^verbatim>\<open>px\<close>, objects included. The object \<^verbatim>\<open>{ title: 'X', model: '12' }\<close> gets as far as
  \<^verbatim>\<open>generatePixelPreset\<close> and keeps the model \<^verbatim>\<open>12\<close>, while its parsed number followed by
  \<^verbatim>\<open>px\<close> is \<^verbatim>\<open>12px\<close>.
\<close>

theorem pixel_preset_object_keeps_model:
  "reachesPixelPreset (OptionObject \<lparr>title = Some ''X'', model = Some ''12'', view = None\<rparr>) \<and>
   getOptionDefinition (OptionObject \<lparr>title = Some ''X'', model = Some ''12'', view = None\<rparr>)
     = Inr (Some \<lparr>title = Some ''X'', model = Some ''12'',
                   view = Some \<lparr>name = ''span'', classes = None,
                                 styles = Some [(''font-style'', Some ''12'')],
                                 priority = Some 7\<rparr>\<rparr>) \<and>
   numberToString (parseFloat ''12'') @ ''px'' = ''12px'' \<and>
   ''12'' \<noteq> ''12px''"
  by code_simp

text \<open>
  Claim C7, as the code has it, at the string \<^verbatim>\<open>'12.5'\<close> and at the object
  \<^verbatim>\<open>{ title: 'Small', model: '8px' }\<close>.
\<close>

theorem pixel_preset_model_witness:
  "reachesPixelPreset (OptionString ''12.5'') \<and>
   getOptionDefinition (OptionString ''12.5'')
     = Inr (Some \<lparr>title = Some ''12.5'', model = Some ''12.5px'',
                   view = Some \<lparr>name = ''span'', classes = None,
                                 styles = Some [(''font-style'', Some ''12.5px'')],
                                 priority = Some 7\<rparr>\<rparr>) \<and>
   reachesPixelPreset (OptionObject \<lparr>title = Some ''Small'', model = Some ''8px'', view = None\<rparr>) \<and>
   getOptionDefinition (OptionObject \<lparr>title = Some ''Small'', model = Some ''8px'', view = None\<rparr>)
     = Inr (Some \<lparr>title = Some ''Small'', model = Some ''8px'',
                   view = Some \<lparr>name = ''span'', classes = None,
                                 styles = Some [(''font-style'', Some ''8px'')],
                                 priority = Some 7\<rparr>\<rparr>)"
proof -
  have r1: "reachesPixelPreset (OptionString ''12.5'')" by code_simp
  have r2: "reachesPixelPreset (OptionObject \<lparr>title = Some ''Small'', model = Some ''8px'', view = None\<rparr>)"
    by code_simp
  have v: "numberToString (parseFloat ''12.5'') = ''12.5''" by code_simp
  have g1: "getOptionDefinition (OptionString ''12.5'')
     = Inr (Some \<lparr>title = Some ''12.5'', model = Some ''12.5px'',
                   view = Some \<lparr>name = ''span'', classes = None,
                                 styles = Some [(''font-style'', Some ''12.5px'')],
                                 priority = Some 7\<rparr>\<rparr>)"
    using pixel_preset_model[OF r1] v by auto
  have g2: "getOptionDefinition (OptionObject \<lparr>title = Some ''Small'', model = Some ''8px'', view = None\<rparr>)
     = Inr (Some \<lparr>title = Some ''Small'', model = Some ''8px'',
                   view = Some \<lparr>name = ''span'', classes = None,
                                 styles = Some [(''font-style'', Some ''8px'')],
                                 priority = Some 7\<rparr>\<rparr>)"
    using pixel_preset_model[OF r2] by auto
  show ?thesis using r1 r2 g1 g2 by blast
qed

text \<open>
  Claim C8. Every option that \<^verbatim>\<open>normalizeOptions\<close> returns either has a view whose priority
  is set (and is not 0), or has no view and is the \<^verbatim>\<open>Default\<close> option. A full definition whose
  view has no priority comes back with the priority 7. The attribute element that the
  downcast converter for any value creates has the priority 7 as well.
\<close>

theorem normalized_views_have_priority:
  "(normalizeOptions configuredOptions = Inr normalized \<longrightarrow>
      (\<forall>opt \<in> set normalized.
          case view opt of
            None \<Rightarrow> opt = \<lparr>title = Some ''Default'', model = None, view = None\<rparr>
          | Some v \<Rightarrow> priority v \<noteq> None \<and> priority v \<noteq> Some 0)) \<and>
   (isFullItemDefinition (OptionObject d) \<and> view d = Some v \<and> priority v = None \<longrightarrow>
      normalizeOptions [OptionObject d] = Inr [d\<lparr>view := Some (v\<lparr>priority := Some 7\<rparr>)\<rparr>]) \<and>
   (anyValueView attributeValue = Some element \<longrightarrow> ae_priority element = 7)"
proof -
  have inv: "normalizeOptions configuredOptions = Inr normalized \<longrightarrow>
      (\<forall>opt \<in> set normalized.
          case view opt of
            None \<Rightarrow> opt = \<lparr>title = Some ''Default'', model = None, view = None\<rparr>
          | Some v \<Rightarrow> priority v \<noteq> None \<and> priority v \<noteq> Some 0)"
  proof (intro impI ballI)
    fix opt
    assume n: "normalizeOptions configuredOptions = Inr normalized" and o: "opt \<in> set normalized"
    obtain x where "getOptionDefinition x = Inr (Some opt)"
      using normalizeOptions_Inr_set[OF n o] by blast
    from getOptionDefinition_priority[OF this]
    show "case view opt of
            None \<Rightarrow> opt = \<lparr>title = Some ''Default'', model = None, view = None\<rparr>
          | Some v \<Rightarrow> priority v \<noteq> None \<and> priority v \<noteq> Some 0"
      by (auto simp: truthyPriority_def)
  qed
  have att: "isFullItemDefinition (OptionObject d) \<and> view d = Some v \<and> priority v = None \<longrightarrow>
      normalizeOptions [OptionObject d] = Inr [d\<lparr>view := Some (v\<lparr>priority := Some 7\<rparr>)\<rparr>]"
  proof
    assume h: "isFullItemDefinition (OptionObject d) \<and> view d = Some v \<and> priority v = None"
    then have "getOptionDefinition (OptionObject d)
      = Inr (Some (d\<lparr>view := Some (v\<lparr>priority := Some 7\<rparr>)\<rparr>))"
      using getOptionDefinition_full[of "OptionObject d"] by (auto simp: truthyPriority_def)
    then show "normalizeOptions [OptionObject d] = Inr [d\<lparr>view := Some (v\<lparr>priority := Some 7\<rparr>)\<rparr>]"
      by (rule normalizeOptions_single)
  qed
  have down: "anyValueView attributeValue = Some element \<longrightarrow> ae_priority element = 7"
    by (auto simp: anyValueView_def split: if_splits)
  show ?thesis using inv att down by blast
qed

text \<open>
  Claim C8, at the options \<^verbatim>\<open>[ 'tiny', 'default', 12 ]\<close>, at a full definition without a
  priority, and at the attribute value \<^verbatim>\<open>13px\<close>.
\<close>

theorem normalized_views_have_priority_witness:
  "normalizeOptions [OptionString ''tiny'', OptionString ''default'', OptionNumber (Finite 12)]
     = Inr [\<lparr>title = Some ''Tiny'', model = Some ''tiny'',
              view = Some \<lparr>name = ''span'', classes = Some ''text-tiny'', styles = None,
                            priority = Some 7\<rparr>\<rparr>,
            \<lparr>title = Some ''Default'', model = None, view = None\<rparr>,
            \<lparr>title = Some ''12'', model = Some ''12px'',
              view = Some \<lparr>name = ''span'', classes = None,
                            styles = Some [(''font-style'', Some ''12px'')],
                            priority = Some 7\<rparr>\<rparr>] \<and>
   isFullItemDefinition
     (OptionObject \<lparr>title = Some ''Mono'', model = Some ''mono'',
                     view = Some \<lparr>name = ''span'', classes = Some ''text-mono'', styles = None,
                                   priority = None\<rparr>\<rparr>) \<and>
   normalizeOptions
     [OptionObject \<lparr>title = Some ''Mono'', model = Some ''mono'',
                     view = Some \<lparr>name = ''span'', classes = Some ''text-mono'', styles = None,
                                   priority = None\<rparr>\<rparr>]
     = Inr [\<lparr>title = Some ''Mono'', model = Some ''mono'',
              view = Some \<lparr>name = ''span'', classes = Some ''text-mono'', styles = None,
                            priority = Some 7\<rparr>\<rparr>] \<and>
   anyValueView (Some ''13px'')
     = Some \<lparr>ae_name = ''span'', ae_attributes = [(''style'', ''font-style:13px'')],
             ae_priority = 7\<rparr> \<and>
   ae_priority \<lparr>ae_name = ''span'', ae_attributes = [(''style'', ''font-style:13px'')],
                ae_priority = 7\<rparr> = 7"
proof -
  let ?v = "\<lparr>name = ''span'', classes = Some ''text-mono'', styles = None, priority = None\<rparr>"
  let ?d = "\<lparr>title = Some ''Mono'', model = Some ''mono'', view = Some ?v\<rparr>"
  let ?el = "\<lparr>ae_name = ''span'', ae_attributes = [(''style'', ''font-style:13px'')],
              ae_priority = 7\<rparr>"
  note t = normalized_views_have_priority[where d = ?d and v = ?v
      and attributeValue = "Some ''13px''" and element = ?el]
  have n: "normalizeOptions [OptionString ''tiny'', OptionString ''default'', OptionNumber (Finite 12)]
     = Inr [\<lparr>title = Some ''Tiny'', model = Some ''tiny'',
              view = Some \<lparr>name = ''span'', classes = Some ''text-tiny'', styles = None,
                            priority = Some 7\<rparr>\<rparr>,
            \<lparr>title = Some ''Default'', model = None, view = None\<rparr>,
            \<lparr>title = Some ''12'', model = Some ''12px'',
              view = Some \<lparr>name = ''span'', classes = None,
                            styles = Some [(''font-style'', Some ''12px'')],
                            priority = Some 7\<rparr>\<rparr>]"
    by code_simp
  have f: "isFullItemDefinition (OptionObject ?d) \<and> view ?d = Some ?v \<and> priority ?v = None"
    by (simp add: truthy_def)
  have a: "normalizeOptions [OptionObject ?d] = Inr [?d\<lparr>view := Some (?v\<lparr>priority := Some 7\<rparr>)\<rparr>]"
    using t f by blast
  have w: "anyValueView (Some ''13px'') = Some ?el"
    by (simp add: anyValueView_def truthy_def String_of_def)
  have p: "ae_priority ?el = 7"
    using t w by blast
  show ?thesis using n f a w p by simp
qed

section \<open>Properties of the conversion set-up\<close>

text \<open>
  Claim C1, as the code has it. \<^verbatim>\<open>init\<close> calls \<^verbatim>\<open>_prepareCompatibilityConverter\<close> in the
  \<^verbatim>\<open>supportAllValues\<close> branch only. Whenever \<^verbatim>\<open>init\<close> succeeds: the legacy upcast rule is
  among the registered converters exactly when \<^verbatim>\<open>supportAllValues\<close> is true; with
  \<^verbatim>\<open>supportAllValues = true\<close> the converters are the downcast and the upcast converter for
  any value and the legacy upcast rule, in this order; with \<^verbatim>\<open>supportAllValues = false\<close>
  the only converter is the two-way conversion of one definition.
\<close>

theorem compat_converter_only_permissive:
  assumes "init isLength isPercentage config = Inr ed"
  shows "(UpcastElementToAttribute FONT_STYLE compatMatches compatValue \<in> set (conversion ed)
            \<longleftrightarrow> supportAllValues config) \<and>
         (supportAllValues config \<longrightarrow>
            conversion ed = [DowncastAttributeToElement FONT_STYLE anyValueView,
                             UpcastElementToAttribute FONT_STYLE anyValueMatches anyValueValue,
                             UpcastElementToAttribute FONT_STYLE compatMatches compatValue]) \<and>
         (\<not> supportAllValues config \<longrightarrow> (\<exists>d. conversion ed = [AttributeToElement d]))"
  using assms
  by (auto simp: init_def Let_def prepareAnyValueConverters_def prepareCompatibilityConverter_def
      split: sum.splits if_splits)

text \<open>
  Claim C1, as stated, says that the legacy upcast rule is registered for both values of
  \<^verbatim>\<open>supportAllValues\<close>. With the default options and \<^verbatim>\<open>supportAllValues = false\<close>,
  \<^verbatim>\<open>init\<close> succeeds and the rule is not among the converters.
\<close>

theorem compat_converter_missing_in_strict_mode:
  "\<not> isl (init pxLength noPercentage
       \<lparr>options = [OptionString ''tiny'', OptionString ''small'', OptionString ''default'',
                   OptionString ''big'', OptionString ''huge''],
        supportAllValues = False\<rparr>) \<and>
   UpcastElementToAttribute FONT_STYLE compatMatches compatValue \<notin> set (conversion (projr (init pxLength noPercentage
       \<lparr>options = [OptionString ''tiny'', OptionString ''small'', OptionString ''default'',
                   OptionString ''big'', OptionString ''huge''],
        supportAllValues = False\<rparr>)))"
proof -
  have "\<not> isl (normalizeOptions [OptionString ''tiny'', OptionString ''small'',
      OptionString ''default'', OptionString ''big'', OptionString ''huge''])"
    by code_simp
  then show ?thesis
    by (auto simp: init_def Let_def split: sum.splits)
qed

text \<open>
  Claim C1, as the code has it, at the options \<^verbatim>\<open>[ 9, 'default', 14 ]\<close> with
  \<^verbatim>\<open>supportAllValues = true\<close>.
\<close>

theorem compat_converter_only_permissive_witness:
  "init pxLength noPercentage
     \<lparr>options = [OptionNumber (Finite 9), OptionString ''default'', OptionNumber (Finite 14)],
      supportAllValues = True\<rparr>
   = Inr \<lparr>allowedTextAttributes = [FONT_STYLE],
          conversion = [DowncastAttributeToElement FONT_STYLE anyValueView,
                        UpcastElementToAttribute FONT_STYLE anyValueMatches anyValueValue,
                        UpcastElementToAttribute FONT_STYLE compatMatches compatValue],
          commands = [FONT_STYLE]\<rparr> \<and>
   UpcastElementToAttribute FONT_STYLE compatMatches compatValue
     \<in> set [DowncastAttributeToElement FONT_STYLE anyValueView,
            UpcastElementToAttribute FONT_STYLE anyValueMatches anyValueValue,
            UpcastElementToAttribute FONT_STYLE compatMatches compatValue] \<and>
   init pxLength noPercentage
     \<lparr>options = [OptionString ''tiny'', OptionString ''default'', OptionString ''huge''],
      supportAllValues = False\<rparr>
   = Inr \<lparr>allowedTextAttributes = [FONT_STYLE],
          conversion =
            [AttributeToElement
               \<lparr>model_key = FONT_STYLE,
                model_values = [Some ''tiny'', Some ''huge''],
                view_of =
                  [(Some ''tiny'', Some \<lparr>name = ''span'', classes = Some ''text-tiny'',
                                          styles = None, priority = Some 7\<rparr>),
                   (Some ''huge'', Some \<lparr>name = ''span'', classes = Some ''text-huge'',
                                          styles = None, priority = Some 7\<rparr>)]\<rparr>],
          commands = [FONT_STYLE]\<rparr> \<and>
   UpcastElementToAttribute FONT_STYLE compatMatches compatValue
     \<notin> set [AttributeToElement
               \<lparr>model_key = FONT_STYLE,
                model_values = [Some ''tiny'', Some ''huge''],
                view_of =
                  [(Some ''tiny'', Some \<lparr>name = ''span'', classes = Some ''text-tiny'',
                                          styles = None, priority = Some 7\<rparr>),
                   (Some ''huge'', Some \<lparr>name = ''span'', classes = Some ''text-huge'',
                                          styles = None, priority = Some 7\<rparr>)]\<rparr>]"
proof -
  have n: "normalizeOptions [OptionNumber (Finite 9), OptionString ''default'', OptionNumber (Finite 14)]
    = Inr [\<lparr>title = Some ''9'', model = Some ''9px'',
             view = Some \<lparr>name = ''span'', classes = None,
                           styles = Some [(''font-style'', Some ''9px'')], priority = Some 7\<rparr>\<rparr>,
           \<lparr>title = Some ''Default'', model = None, view = None\<rparr>,
           \<lparr>title = Some ''14'', model = Some ''14px'',
             view = Some \<lparr>name = ''span'', classes = None,
                           styles = Some [(''font-style'', Some ''14px'')], priority = Some 7\<rparr>\<rparr>]"
    by code_simp
  have i: "init pxLength noPercentage
     \<lparr>options = [OptionNumber (Finite 9), OptionString ''default'', OptionNumber (Finite 14)],
      supportAllValues = True\<rparr>
   = Inr \<lparr>allowedTextAttributes = [FONT_STYLE],
          conversion = [DowncastAttributeToElement FONT_STYLE anyValueView,
                        UpcastElementToAttribute FONT_STYLE anyValueMatches anyValueValue,
                        UpcastElementToAttribute FONT_STYLE compatMatches compatValue],
          commands = [FONT_STYLE]\<rparr>"
    by (simp add: init_def n truthy_def buildDefinition_def prepareAnyValueConverters_def
        prepareCompatibilityConverter_def String_of_def pxLength_def noPercentage_def)
  have m: "normalizeOptions [OptionString ''tiny'', OptionString ''default'', OptionString ''huge'']
     = Inr [\<lparr>title = Some ''Tiny'', model = Some ''tiny'',
              view = Some \<lparr>name = ''span'', classes = Some ''text-tiny'', styles = None,
                            priority = Some 7\<rparr>\<rparr>,
            \<lparr>title = Some ''Default'', model = None, view = None\<rparr>,
            \<lparr>title = Some ''Huge'', model = Some ''huge'',
              view = Some \<lparr>name = ''span'', classes = Some ''text-huge'', styles = None,
                            priority = Some 7\<rparr>\<rparr>]"
    by code_simp
  have j: "init pxLength noPercentage
     \<lparr>options = [OptionString ''tiny'', OptionString ''default'', OptionString ''huge''],
      supportAllValues = False\<rparr>
   = Inr \<lparr>allowedTextAttributes = [FONT_STYLE],
          conversion =
            [AttributeToElement
               \<lparr>model_key = FONT_STYLE,
                model_values = [Some ''tiny'', Some ''huge''],
                view_of =
                  [(Some ''tiny'', Some \<lparr>name = ''span'', classes = Some ''text-tiny'',
                                          styles = None, priority = Some 7\<rparr>),
                   (Some ''huge'', Some \<lparr>name = ''span'', classes = Some ''text-huge'',
                                          styles = None, priority = Some 7\<rparr>)]\<rparr>],
          commands = [FONT_STYLE]\<rparr>"
    by (simp add: init_def m truthy_def buildDefinition_def)
  show ?thesis
    using compat_converter_only_permissive[OF i] compat_converter_only_permissive[OF j] i j
    by simp
qed

text \<open>
  Claim C3. With \<^verbatim>\<open>supportAllValues = true\<close> and options that normalise, \<^verbatim>\<open>init\<close> throws
  \<^verbatim>\<open>font-style-invalid-use-of-named-presets\<close> whenever some option has a model that is
  neither a length nor a percentage, and the data of the error lists exactly those models,
  in order; when every model is a length or a percentage, \<^verbatim>\<open>init\<close> succeeds and registers
  the converters of the permissive mode. The models are those of the options that have
  one.
\<close>

theorem permissive_mode_rejects_named_presets:
  assumes "normalizeOptions (options config) = Inr normalized" and "supportAllValues config"
  shows "(if \<exists>m \<in> set (map model normalized).
              truthy m \<and> \<not> isLength (String_of m) \<and> \<not> isPercentage (String_of m)
          then init isLength isPercentage config =
                 Inl (CKEditorError ''font-style-invalid-use-of-named-presets''
                       (PresetsData (filter (\<lambda>m. \<not> isLength (String_of m) \<and> \<not> isPercentage (String_of m))
                                       (filter truthy (map model normalized)))))
          else init isLength isPercentage config =
                 Inr \<lparr>allowedTextAttributes = [FONT_STYLE],
                      conversion = [DowncastAttributeToElement FONT_STYLE anyValueView,
                                    UpcastElementToAttribute FONT_STYLE anyValueMatches anyValueValue,
                                    UpcastElementToAttribute FONT_STYLE compatMatches compatValue],
                      commands = [FONT_STYLE]\<rparr>)"
proof -
  let ?bad = "\<lambda>m. \<not> isLength (String_of m) \<and> \<not> isPercentage (String_of m)"
  let ?vals = "filter truthy (map model normalized)"
  have vals: "model_values (buildDefinition FONT_STYLE (filter (\<lambda>item. truthy (model item)) normalized))
      = ?vals"
    by (induction normalized) (auto simp: buildDefinition_def)
  have ex: "(\<exists>m \<in> set (map model normalized). truthy m \<and> ?bad m) \<longleftrightarrow> filter ?bad ?vals \<noteq> []"
    by (auto simp: filter_empty_conv)
  show ?thesis
    unfolding ex
    using assms
    by (simp add: init_def Let_def prepareAnyValueConverters_def vals
        prepareCompatibilityConverter_def)
qed

text \<open>
  Claim C3, at the options \<^verbatim>\<open>[ 'small' ]\<close>: the named preset is rejected and listed.
\<close>

theorem permissive_mode_rejects_named_presets_witness:
  "normalizeOptions (options \<lparr>options = [OptionString ''small''], supportAllValues = True\<rparr>)
     = Inr [\<lparr>title = Some ''Small'', model = Some ''small'',
              view = Some \<lparr>name = ''span'', classes = Some ''text-small'', styles = None,
                            priority = Some 7\<rparr>\<rparr>] \<and>
   supportAllValues \<lparr>options = [OptionString ''small''], supportAllValues = True\<rparr> \<and>
   init pxLength noPercentage \<lparr>options = [OptionString ''small''], supportAllValues = True\<rparr>
     = Inl (CKEditorError ''font-style-invalid-use-of-named-presets'' (PresetsData [Some ''small'']))"
proof -
  have n: "normalizeOptions (options \<lparr>options = [OptionString ''small''], supportAllValues = True\<rparr>)
     = Inr [\<lparr>title = Some ''Small'', model = Some ''small'',
              view = Some \<lparr>name = ''span'', classes = Some ''text-small'', styles = None,
                            priority = Some 7\<rparr>\<rparr>]"
    by code_simp
  have s: "supportAllValues \<lparr>options = [OptionString ''small''], supportAllValues = True\<rparr>"
    by simp
  show ?thesis
    using permissive_mode_rejects_named_presets[OF n s, of pxLength noPercentage] n
    by (simp add: truthy_def String_of_def pxLength_def noPercentage_def)
qed

text \<open>
  Claim C4. With \<^verbatim>\<open>supportAllValues = true\<close> a successful \<^verbatim>\<open>init\<close> registers the downcast
  converter and the upcast converter for any value (and the legacy one). The downcast
  callback turns every non-empty value into a \<^verbatim>\<open>span\<close> with the attribute
  \<^verbatim>\<open>style="font-style:<value>"\<close> and the priority 7, and an empty or missing value into
  nothing. The upcast converter accepts every \<^verbatim>\<open>span\<close> that carries a \<^verbatim>\<open>font-style\<close> style
  and returns the raw value of that style, whatever the configured options are.
\<close>

theorem any_value_converters:
  "(supportAllValues config \<and> init isLength isPercentage config = Inr ed \<longrightarrow>
      conversion ed = [DowncastAttributeToElement FONT_STYLE anyValueView,
                       UpcastElementToAttribute FONT_STYLE anyValueMatches anyValueValue,
                       UpcastElementToAttribute FONT_STYLE compatMatches compatValue]) \<and>
   (v \<noteq> [] \<longrightarrow>
      anyValueView (Some v) =
        Some \<lparr>ae_name = ''span'', ae_attributes = [(''style'', ''font-style:'' @ v)],
              ae_priority = 7\<rparr>) \<and>
   anyValueView (Some []) = None \<and>
   anyValueView None = None \<and>
   (ve_name viewElement = ''span'' \<and> getStyle viewElement ''font-style'' = Some raw \<longrightarrow>
      anyValueMatches viewElement \<and> anyValueValue viewElement = Inr (Some raw))"
proof -
  have reg: "supportAllValues config \<and> init isLength isPercentage config = Inr ed \<longrightarrow>
      conversion ed = [DowncastAttributeToElement FONT_STYLE anyValueView,
                       UpcastElementToAttribute FONT_STYLE anyValueMatches anyValueValue,
                       UpcastElementToAttribute FONT_STYLE compatMatches compatValue]"
    by (auto simp: init_def Let_def prepareAnyValueConverters_def prepareCompatibilityConverter_def
        split: sum.splits if_splits)
  have down: "v \<noteq> [] \<longrightarrow>
      anyValueView (Some v) =
        Some \<lparr>ae_name = ''span'', ae_attributes = [(''style'', ''font-style:'' @ v)],
              ae_priority = 7\<rparr>"
    by (simp add: anyValueView_def truthy_def String_of_def)
  have none: "anyValueView (Some []) = None" "anyValueView None = None"
    by (simp_all add: anyValueView_def truthy_def)
  have up: "ve_name viewElement = ''span'' \<and> getStyle viewElement ''font-style'' = Some raw \<longrightarrow>
      anyValueMatches viewElement \<and> anyValueValue viewElement = Inr (Some raw)"
    by (simp add: anyValueMatches_def anyValueValue_def)
  show ?thesis using reg down none up by blast
qed

lemma normalize_numeric_example:
  "normalizeOptions [OptionNumber (Finite 9), OptionNumber (Finite 10), OptionNumber (Finite 11),
                     OptionString ''default'', OptionNumber (Finite 14)]
   = Inr [\<lparr>title = Some ''9'', model = Some ''9px'',
            view = Some \<lparr>name = ''span'', classes = None,
                          styles = Some [(''font-style'', Some ''9px'')], priority = Some 7\<rparr>\<rparr>,
          \<lparr>title = Some ''10'', model = Some ''10px'',
            view = Some \<lparr>name = ''span'', classes = None,
                          styles = Some [(''font-style'', Some ''10px'')], priority = Some 7\<rparr>\<rparr>,
          \<lparr>title = Some ''11'', model = Some ''11px'',
            view = Some \<lparr>name = ''span'', classes = None,
                          styles = Some [(''font-style'', Some ''11px'')], priority = Some 7\<rparr>\<rparr>,
          \<lparr>title = Some ''Default'', model = None, view = None\<rparr>,
          \<lparr>title = Some ''14'', model = Some ''14px'',
            view = Some \<lparr>name = ''span'', classes = None,
                          styles = Some [(''font-style'', Some ''14px'')], priority = Some 7\<rparr>\<rparr>]"
  by code_simp

lemma init_numeric_example:
  "init pxLength noPercentage
     \<lparr>options = [OptionNumber (Finite 9), OptionNumber (Finite 10), OptionNumber (Finite 11),
                 OptionString ''default'', OptionNumber (Finite 14)],
      supportAllValues = True\<rparr>
   = Inr \<lparr>allowedTextAttributes = [FONT_STYLE],
          conversion = [DowncastAttributeToElement FONT_STYLE anyValueView,
                        UpcastElementToAttribute FONT_STYLE anyValueMatches anyValueValue,
                        UpcastElementToAttribute FONT_STYLE compatMatches compatValue],
          commands = [FONT_STYLE]\<rparr>"
  by (simp add: init_def normalize_numeric_example truthy_def buildDefinition_def
      prepareAnyValueConverters_def prepareCompatibilityConverter_def String_of_def
      pxLength_def noPercentage_def)

text \<open>
  Claim C4, at the options \<^verbatim>\<open>[ 9, 10, 11, 'default', 14 ]\<close> and the value \<^verbatim>\<open>13px\<close>, which
  is not among them.
\<close>

theorem any_value_converters_witness:
  "supportAllValues
     \<lparr>options = [OptionNumber (Finite 9), OptionNumber (Finite 10), OptionNumber (Finite 11),
                 OptionString ''default'', OptionNumber (Finite 14)],
      supportAllValues = True\<rparr> \<and>
   init pxLength noPercentage
     \<lparr>options = [OptionNumber (Finite 9), OptionNumber (Finite 10), OptionNumber (Finite 11),
                 OptionString ''default'', OptionNumber (Finite 14)],
      supportAllValues = True\<rparr>
   = Inr \<lparr>allowedTextAttributes = [FONT_STYLE],
          conversion = [DowncastAttributeToElement FONT_STYLE anyValueView,
                        UpcastElementToAttribute FONT_STYLE anyValueMatches anyValueValue,
                        UpcastElementToAttribute FONT_STYLE compatMatches compatValue],
          commands = [FONT_STYLE]\<rparr> \<and>
   ''13px'' \<noteq> [] \<and>
   anyValueView (Some ''13px'') =
     Some \<lparr>ae_name = ''span'', ae_attributes = [(''style'', ''font-style:13px'')], ae_priority = 7\<rparr> \<and>
   ve_name \<lparr>ve_name = ''span'', ve_attributes = [], ve_styles = [(''font-style'', ''13px'')]\<rparr>
     = ''span'' \<and>
   getStyle \<lparr>ve_name = ''span'', ve_attributes = [], ve_styles = [(''font-style'', ''13px'')]\<rparr>
     ''font-style'' = Some ''13px'' \<and>
   anyValueMatches \<lparr>ve_name = ''span'', ve_attributes = [], ve_styles = [(''font-style'', ''13px'')]\<rparr> \<and>
   anyValueValue \<lparr>ve_name = ''span'', ve_attributes = [], ve_styles = [(''font-style'', ''13px'')]\<rparr>
     = Inr (Some ''13px'')"
  using any_value_converters[where config = "\<lparr>options = [OptionNumber (Finite 9), OptionNumber (Finite 10), OptionNumber (Finite 11),
                 OptionString ''default'', OptionNumber (Finite 14)],
      supportAllValues = True\<rparr>" and isLength = pxLength and isPercentage = noPercentage
      and v = "''13px''"
      and viewElement = "\<lparr>ve_name = ''span'', ve_attributes = [], ve_styles = [(''font-style'', ''13px'')]\<rparr>"
      and raw = "''13px''"]
    init_numeric_example
  by (simp add: getStyle_def)

text \<open>
  Claim C10. \<^verbatim>\<open>init\<close> keeps the normalised options with a model, in their order, and builds
  the definition from exactly these, in both modes: they are the normalised options whose
  model is defined, that is all but the \<^verbatim>\<open>Default\<close> option. So a \<^verbatim>\<open>'default'\<close> entry anywhere
  in the options changes nothing in what \<^verbatim>\<open>init\<close> returns, in either mode; \<^verbatim>\<open>'default'\<close>
  alone with \<^verbatim>\<open>supportAllValues = true\<close> succeeds; the definition of the strict mode holds
  no missing model; and the data of the named-presets error never lists one.
\<close>

theorem default_entry_is_filtered_out:
  "init isLength isPercentage \<lparr>options = xs @ [OptionString ''default''] @ ys, supportAllValues = b\<rparr>
     = init isLength isPercentage \<lparr>options = xs @ ys, supportAllValues = b\<rparr> \<and>
   init isLength isPercentage \<lparr>options = [OptionString ''default''], supportAllValues = True\<rparr>
     = Inr \<lparr>allowedTextAttributes = [FONT_STYLE],
            conversion = [DowncastAttributeToElement FONT_STYLE anyValueView,
                          UpcastElementToAttribute FONT_STYLE anyValueMatches anyValueValue,
                          UpcastElementToAttribute FONT_STYLE compatMatches compatValue],
            commands = [FONT_STYLE]\<rparr> \<and>
   (\<not> supportAllValues config \<and> init isLength isPercentage config = Inr ed \<longrightarrow>
      (\<exists>d. conversion ed = [AttributeToElement d] \<and> None \<notin> set (model_values d) \<and>
           None \<notin> fst ` set (view_of d))) \<and>
   (supportAllValues config \<and>
    init isLength isPercentage config = Inl (CKEditorError errorName (PresetsData presets)) \<longrightarrow>
      None \<notin> set presets) \<and>
   (normalizeOptions (options config) = Inr normalized \<longrightarrow>
      filter (\<lambda>item. truthy (model item)) normalized
        = filter (\<lambda>item. model item \<noteq> None) normalized \<and>
      filter (\<lambda>item. truthy (model item)) normalized
        = filter (\<lambda>item. item \<noteq> \<lparr>title = Some ''Default'', model = None, view = None\<rparr>)
            normalized \<and>
      init isLength isPercentage config =
        (if supportAllValues config then
           (case prepareAnyValueConverters isLength isPercentage
                   (buildDefinition FONT_STYLE
                      (filter (\<lambda>item. truthy (model item)) normalized)) of
              Inl e \<Rightarrow> Inl e
            | Inr converters \<Rightarrow>
                Inr \<lparr>allowedTextAttributes = [FONT_STYLE],
                     conversion = converters @ prepareCompatibilityConverter,
                     commands = [FONT_STYLE]\<rparr>)
         else
           Inr \<lparr>allowedTextAttributes = [FONT_STYLE],
                conversion =
                  [AttributeToElement
                     (buildDefinition FONT_STYLE
                        (filter (\<lambda>item. truthy (model item)) normalized))],
                commands = [FONT_STYLE]\<rparr>))"
proof -
  have same: "init isLength isPercentage
       \<lparr>options = xs @ [OptionString ''default''] @ ys, supportAllValues = b\<rparr>
     = init isLength isPercentage \<lparr>options = xs @ ys, supportAllValues = b\<rparr>"
    by (rule init_default_entry)
  have only: "init isLength isPercentage \<lparr>options = [OptionString ''default''], supportAllValues = True\<rparr>
     = Inr \<lparr>allowedTextAttributes = [FONT_STYLE],
            conversion = [DowncastAttributeToElement FONT_STYLE anyValueView,
                          UpcastElementToAttribute FONT_STYLE anyValueMatches anyValueValue,
                          UpcastElementToAttribute FONT_STYLE compatMatches compatValue],
            commands = [FONT_STYLE]\<rparr>"
    by (simp add: init_def normalizeOptions_def getOptionDefinition_default List.map_filter_simps
        buildDefinition_def truthy_def prepareAnyValueConverters_def prepareCompatibilityConverter_def)
  have strict: "\<not> supportAllValues config \<and> init isLength isPercentage config = Inr ed \<longrightarrow>
      (\<exists>d. conversion ed = [AttributeToElement d] \<and> None \<notin> set (model_values d) \<and>
           None \<notin> fst ` set (view_of d))"
    by (auto simp: init_def Let_def buildDefinition_def truthy_def split: sum.splits)
  have permissive: "supportAllValues config \<and>
    init isLength isPercentage config = Inl (CKEditorError errorName (PresetsData presets)) \<longrightarrow>
      None \<notin> set presets"
  proof (cases "normalizeOptions (options config)")
    case (Inl e)
    then show ?thesis
      using normalizeOptions_no_presets_error[of "options config" errorName presets]
      by (auto simp: init_def)
  next
    case (Inr normalized)
    then show ?thesis
      by (auto simp: init_def Let_def buildDefinition_def truthy_def prepareAnyValueConverters_def
          split: sum.splits if_splits)
  qed
  have kept: "normalizeOptions (options config) = Inr normalized \<longrightarrow>
      filter (\<lambda>item. truthy (model item)) normalized
        = filter (\<lambda>item. model item \<noteq> None) normalized \<and>
      filter (\<lambda>item. truthy (model item)) normalized
        = filter (\<lambda>item. item \<noteq> \<lparr>title = Some ''Default'', model = None, view = None\<rparr>)
            normalized \<and>
      init isLength isPercentage config =
        (if supportAllValues config then
           (case prepareAnyValueConverters isLength isPercentage
                   (buildDefinition FONT_STYLE
                      (filter (\<lambda>item. truthy (model item)) normalized)) of
              Inl e \<Rightarrow> Inl e
            | Inr converters \<Rightarrow>
                Inr \<lparr>allowedTextAttributes = [FONT_STYLE],
                     conversion = converters @ prepareCompatibilityConverter,
                     commands = [FONT_STYLE]\<rparr>)
         else
           Inr \<lparr>allowedTextAttributes = [FONT_STYLE],
                conversion =
                  [AttributeToElement
                     (buildDefinition FONT_STYLE
                        (filter (\<lambda>item. truthy (model item)) normalized))],
                commands = [FONT_STYLE]\<rparr>)"
  proof
    assume n: "normalizeOptions (options config) = Inr normalized"
    have i: "init isLength isPercentage config =
        (if supportAllValues config then
           (case prepareAnyValueConverters isLength isPercentage
                   (buildDefinition FONT_STYLE
                      (filter (\<lambda>item. truthy (model item)) normalized)) of
              Inl e \<Rightarrow> Inl e
            | Inr converters \<Rightarrow>
                Inr \<lparr>allowedTextAttributes = [FONT_STYLE],
                     conversion = converters @ prepareCompatibilityConverter,
                     commands = [FONT_STYLE]\<rparr>)
         else
           Inr \<lparr>allowedTextAttributes = [FONT_STYLE],
                conversion =
                  [AttributeToElement
                     (buildDefinition FONT_STYLE
                        (filter (\<lambda>item. truthy (model item)) normalized))],
                commands = [FONT_STYLE]\<rparr>)"
      by (simp add: init_def n Let_def)
    show "filter (\<lambda>item. truthy (model item)) normalized
        = filter (\<lambda>item. model item \<noteq> None) normalized \<and>
      filter (\<lambda>item. truthy (model item)) normalized
        = filter (\<lambda>item. item \<noteq> \<lparr>title = Some ''Default'', model = None, view = None\<rparr>)
            normalized \<and>
      init isLength isPercentage config =
        (if supportAllValues config then
           (case prepareAnyValueConverters isLength isPercentage
                   (buildDefinition FONT_STYLE
                      (filter (\<lambda>item. truthy (model item)) normalized)) of
              Inl e \<Rightarrow> Inl e
            | Inr converters \<Rightarrow>
                Inr \<lparr>allowedTextAttributes = [FONT_STYLE],
                     conversion = converters @ prepareCompatibilityConverter,
                     commands = [FONT_STYLE]\<rparr>)
         else
           Inr \<lparr>allowedTextAttributes = [FONT_STYLE],
                conversion =
                  [AttributeToElement
                     (buildDefinition FONT_STYLE
                        (filter (\<lambda>item. truthy (model item)) normalized))],
                commands = [FONT_STYLE]\<rparr>)"
      using normalizeOptions_models[OF n] i by blast
  qed
  show ?thesis using same only strict permissive kept by blast
qed

text \<open>
  Claim C10, at the options \<^verbatim>\<open>[ 'tiny', 'default', 'huge' ]\<close> in both modes, and at
  \<^verbatim>\<open>[ 9, 10, 11, 'default', 14 ]\<close> with \<^verbatim>\<open>supportAllValues = true\<close>.
\<close>

theorem default_entry_is_filtered_out_witness:
  "normalizeOptions
     (options \<lparr>options = [OptionString ''tiny'', OptionString ''default'', OptionString ''huge''],
               supportAllValues = False\<rparr>)
     = Inr [\<lparr>title = Some ''Tiny'', model = Some ''tiny'',
              view = Some \<lparr>name = ''span'', classes = Some ''text-tiny'', styles = None,
                            priority = Some 7\<rparr>\<rparr>,
            \<lparr>title = Some ''Default'', model = None, view = None\<rparr>,
            \<lparr>title = Some ''Huge'', model = Some ''huge'',
              view = Some \<lparr>name = ''span'', classes = Some ''text-huge'', styles = None,
                            priority = Some 7\<rparr>\<rparr>] \<and>
   filter (\<lambda>item. truthy (model item))
       [\<lparr>title = Some ''Tiny'', model = Some ''tiny'',
          view = Some \<lparr>name = ''span'', classes = Some ''text-tiny'', styles = None,
                        priority = Some 7\<rparr>\<rparr>,
        \<lparr>title = Some ''Default'', model = None, view = None\<rparr>,
        \<lparr>title = Some ''Huge'', model = Some ''huge'',
          view = Some \<lparr>name = ''span'', classes = Some ''text-huge'', styles = None,
                        priority = Some 7\<rparr>\<rparr>]
     = [\<lparr>title = Some ''Tiny'', model = Some ''tiny'',
          view = Some \<lparr>name = ''span'', classes = Some ''text-tiny'', styles = None,
                        priority = Some 7\<rparr>\<rparr>,
        \<lparr>title = Some ''Huge'', model = Some ''huge'',
          view = Some \<lparr>name = ''span'', classes = Some ''text-huge'', styles = None,
                        priority = Some 7\<rparr>\<rparr>] \<and>
   \<not> supportAllValues
       \<lparr>options = [OptionString ''tiny'', OptionString ''default'', OptionString ''huge''],
        supportAllValues = False\<rparr> \<and>
   init pxLength noPercentage
       \<lparr>options = [OptionString ''tiny'', OptionString ''default'', OptionString ''huge''],
        supportAllValues = False\<rparr>
     = Inr \<lparr>allowedTextAttributes = [FONT_STYLE],
            conversion =
              [AttributeToElement
                 \<lparr>model_key = FONT_STYLE,
                  model_values = [Some ''tiny'', Some ''huge''],
                  view_of =
                    [(Some ''tiny'', Some \<lparr>name = ''span'', classes = Some ''text-tiny'',
                                            styles = None, priority = Some 7\<rparr>),
                     (Some ''huge'', Some \<lparr>name = ''span'', classes = Some ''text-huge'',
                                            styles = None, priority = Some 7\<rparr>)]\<rparr>],
            commands = [FONT_STYLE]\<rparr> \<and>
   None \<notin> set [Some ''tiny'', Some ''huge''] \<and>
   supportAllValues
       \<lparr>options = [OptionString ''tiny'', OptionString ''default'', OptionString ''huge''],
        supportAllValues = True\<rparr> \<and>
   init pxLength noPercentage
       \<lparr>options = [OptionString ''tiny'', OptionString ''default'', OptionString ''huge''],
        supportAllValues = True\<rparr>
     = Inl (CKEditorError ''font-style-invalid-use-of-named-presets''
             (PresetsData [Some ''tiny'', Some ''huge''])) \<and>
   init pxLength noPercentage
       \<lparr>options = [OptionNumber (Finite 9), OptionNumber (Finite 10), OptionNumber (Finite 11),
                   OptionString ''default'', OptionNumber (Finite 14)],
        supportAllValues = True\<rparr>
     = init pxLength noPercentage
       \<lparr>options = [OptionNumber (Finite 9), OptionNumber (Finite 10), OptionNumber (Finite 11),
                   OptionNumber (Finite 14)],
        supportAllValues = True\<rparr>"
proof -
  have n: "normalizeOptions [OptionString ''tiny'', OptionString ''default'', OptionString ''huge'']
     = Inr [\<lparr>title = Some ''Tiny'', model = Some ''tiny'',
              view = Some \<lparr>name = ''span'', classes = Some ''text-tiny'', styles = None,
                            priority = Some 7\<rparr>\<rparr>,
            \<lparr>title = Some ''Default'', model = None, view = None\<rparr>,
            \<lparr>title = Some ''Huge'', model = Some ''huge'',
              view = Some \<lparr>name = ''span'', classes = Some ''text-huge'', styles = None,
                            priority = Some 7\<rparr>\<rparr>]"
    by code_simp
  have i1: "init pxLength noPercentage
       \<lparr>options = [OptionString ''tiny'', OptionString ''default'', OptionString ''huge''],
        supportAllValues = False\<rparr>
     = Inr \<lparr>allowedTextAttributes = [FONT_STYLE],
            conversion =
              [AttributeToElement
                 \<lparr>model_key = FONT_STYLE,
                  model_values = [Some ''tiny'', Some ''huge''],
                  view_of =
                    [(Some ''tiny'', Some \<lparr>name = ''span'', classes = Some ''text-tiny'',
                                            styles = None, priority = Some 7\<rparr>),
                     (Some ''huge'', Some \<lparr>name = ''span'', classes = Some ''text-huge'',
                                            styles = None, priority = Some 7\<rparr>)]\<rparr>],
            commands = [FONT_STYLE]\<rparr>"
    using default_entry_is_filtered_out[where isLength = pxLength and isPercentage = noPercentage
        and config = "\<lparr>options = [OptionString ''tiny'', OptionString ''default'',
                                  OptionString ''huge''],
                       supportAllValues = False\<rparr>"
        and normalized = "[\<lparr>title = Some ''Tiny'', model = Some ''tiny'',
              view = Some \<lparr>name = ''span'', classes = Some ''text-tiny'', styles = None,
                            priority = Some 7\<rparr>\<rparr>,
            \<lparr>title = Some ''Default'', model = None, view = None\<rparr>,
            \<lparr>title = Some ''Huge'', model = Some ''huge'',
              view = Some \<lparr>name = ''span'', classes = Some ''text-huge'', styles = None,
                            priority = Some 7\<rparr>\<rparr>]",
        THEN conjunct2, THEN conjunct2, THEN conjunct2, THEN conjunct2]
      n
    by (simp add: truthy_def buildDefinition_def)
  have i2: "init pxLength noPercentage
       \<lparr>options = [OptionString ''tiny'', OptionString ''default'', OptionString ''huge''],
        supportAllValues = True\<rparr>
     = Inl (CKEditorError ''font-style-invalid-use-of-named-presets''
             (PresetsData [Some ''tiny'', Some ''huge'']))"
    by (simp add: init_def n truthy_def buildDefinition_def prepareAnyValueConverters_def
        String_of_def pxLength_def noPercentage_def)
  have s: "init pxLength noPercentage
       \<lparr>options = [OptionNumber (Finite 9), OptionNumber (Finite 10), OptionNumber (Finite 11)]
                   @ [OptionString ''default''] @ [OptionNumber (Finite 14)],
        supportAllValues = True\<rparr>
     = init pxLength noPercentage
       \<lparr>options = [OptionNumber (Finite 9), OptionNumber (Finite 10), OptionNumber (Finite 11)]
                   @ [OptionNumber (Finite 14)],
        supportAllValues = True\<rparr>"
    using default_entry_is_filtered_out[of pxLength noPercentage
        "[OptionNumber (Finite 9), OptionNumber (Finite 10), OptionNumber (Finite 11)]"
        "[OptionNumber (Finite 14)]" True]
    by blast
  show ?thesis using n i1 i2 s by (simp add: truthy_def)
qed

section \<open>Properties of the store model\<close>

text \<open>
  The two models agree on strings and numbers: from any store, \<^verbatim>\<open>getOptionDefinition\<close> on
  the store fails with the same error as on values, or returns \<^verbatim>\<open>undefined\<close> where the
  other does, or returns the address of an object that reads back as the option the other
  returns.
\<close>

lemma namedPresetsS_own:
  assumes "namedPresets key = Some p"
  shows "\<exists>t m c. p = \<lparr>title = Some t, model = Some m,
                        view = Some \<lparr>name = ''span'', classes = Some c, styles = None,
                                      priority = Some 7\<rparr>\<rparr> \<and>
                 namedPresetsS h key = newPreset h t m c"
proof -
  consider "key = ''tiny''" | "key = ''small''" | "key = ''big''" | "key = ''huge''"
    using assms unfolding namedPresets_def by (meson option.distinct(1))
  then show ?thesis
  proof cases
    case 1
    then show ?thesis using assms by (auto simp: namedPresets_def namedPresetsS_def)
  next
    case 2
    then show ?thesis using assms by (auto simp: namedPresets_def namedPresetsS_def)
  next
    case 3
    then show ?thesis using assms by (auto simp: namedPresets_def namedPresetsS_def)
  next
    case 4
    then show ?thesis using assms by (auto simp: namedPresets_def namedPresetsS_def)
  qed
qed

lemma namedPresetsS_other:
  assumes "namedPresets key = None"
  shows "namedPresetsS h key =
           (if key \<in> set objectPrototypeKeys then (InheritedValue key, h) else (NoPreset, h))"
proof -
  have "key \<noteq> ''tiny''" "key \<noteq> ''small''" "key \<noteq> ''big''" "key \<noteq> ''huge''"
    using assms unfolding namedPresets_def by (auto split: if_splits)
  then show ?thesis unfolding namedPresetsS_def by simp
qed


lemma models_agree_on_primitives:
  assumes "(x = StringValue s \<and> opt = OptionString s) \<or> (x = NumberValue n \<and> opt = OptionNumber n)"
  shows "case getOptionDefinitionS h x of
           Inl e \<Rightarrow> getOptionDefinition opt = Inl e
         | Inr (r, h') \<Rightarrow> getOptionDefinition opt = Inr (readOption h' r)"
proof -
  have full: "isFullItemDefinitionS h x = Inr False" "\<not> isFullItemDefinition opt"
    using assms by auto
  have key: "toStringValue x = propertyKey opt"
    and mdl: "getProperty h x ''model'' = Inr Undefined" "modelOf opt = None"
    using assms by auto
  have u: "namedPresets ''undefined'' = None" "''undefined'' \<notin> set objectPrototypeKeys"
    by code_simp+
  show ?thesis
  proof (cases "namedPresets (toStringValue x)")
    case (Some p)
    obtain t m cls where p: "p = \<lparr>title = Some t, model = Some m,
                        view = Some \<lparr>name = ''span'', classes = Some cls, styles = None,
                                      priority = Some 7\<rparr>\<rparr>"
      and s: "namedPresetsS h (toStringValue x) = newPreset h t m cls"
      using namedPresetsS_own[OF Some, of h] by blast
    have fp: "findPreset opt = Some p"
      using Some by (simp add: findPreset_def namedPresetsLookup_def key)
    show ?thesis
      using fp full s
      by (simp add: getOptionDefinitionS_def getOptionDefinition_def findPresetS_def p
          newPreset_def newObject_def attachPriorityS_def nth_append property_def
          truthyPriority_def String_of_def)
  next
    case None
    show ?thesis
    proof (cases "toStringValue x \<in> set objectPrototypeKeys")
      case True
      have fp: "findPreset opt = Some \<lparr>title = None, model = None, view = None\<rparr>"
        using None True by (simp add: findPreset_def namedPresetsLookup_def key)
      show ?thesis
        using fp full None True
        by (simp add: getOptionDefinitionS_def getOptionDefinition_def findPresetS_def
            namedPresetsS_other)
    next
      case False
      have fp: "findPreset opt = None"
        using None False by (simp add: findPreset_def namedPresetsLookup_def key mdl String_of_def u)
      have fps: "findPresetS h x = Inr (NoPreset, h)"
        using None False by (simp add: findPresetS_def namedPresetsS_other mdl u)
      show ?thesis
      proof (cases "x = StringValue ''default''")
        case True
        then have "opt = OptionString ''default''" using assms by auto
        then show ?thesis
          using True fp fps full
          by (simp add: getOptionDefinitionS_def getOptionDefinition_def newObject_def property_def)
      next
        case False
        then have nd: "opt \<noteq> OptionString ''default''" using assms by auto
        have num: "isNumericalDefinitionS h x = isNumericalDefinition opt"
          using assms by auto
        have pix: "generatePixelPresetS h x
           = Inr (Reference (length h),
                  h @ [[(''title'', StringValue (String_of (title (extendShortDefinition opt)))),
                        (''model'', StringValue (String_of (model (extendShortDefinition opt)))),
                        (''view'', Reference (length h + 2))],
                       [(''font-style'', StringValue (String_of (model (extendShortDefinition opt))))],
                       [(''name'', StringValue ''span''), (''styles'', Reference (length h + 1)),
                        (''priority'', NumberValue (Finite 7))]])"
          using assms
          by (auto simp: generatePixelPresetS_def newObject_def attachPriorityS_def nth_append
              list_update_append Let_def String_of_def)
        obtain b where b: "isNumericalDefinition opt = Inr b"
          using assms by auto
        show ?thesis
        proof (cases b)
          case True
          then show ?thesis
            using False nd fp fps full num b
            by (simp add: getOptionDefinitionS_def getOptionDefinition_def)
        next
          case notnan: False
          have "getOptionDefinition opt
            = Inr (Some ((extendShortDefinition opt)
                \<lparr>view := Some \<lparr>name = ''span'', classes = None,
                      styles = Some [(''font-style'', model (extendShortDefinition opt))],
                      priority = Some 7\<rparr>\<rparr>))"
            using nd fp full b notnan
            by (simp add: getOptionDefinition_def generatePixelPreset_eq)
          moreover have "getOptionDefinitionS h x = generatePixelPresetS h x"
            using False fps full num b notnan by (simp add: getOptionDefinitionS_def)
          ultimately show ?thesis
            using assms by (auto simp: pix property_def nth_append String_of_def)
        qed
      qed
    qed
  qed
qed

lemma map_of_putProperty:
  "map_of (putProperty key v properties) = (map_of properties)(key \<mapsto> v)"
  by (induction properties) (auto simp: fun_eq_iff)

lemma getOptionDefinitionS_tiny:
  "getOptionDefinitionS h (StringValue ''tiny'') =
     Inr (Reference (Suc (length h)),
          h @ [[(''name'', StringValue ''span''), (''classes'', StringValue ''text-tiny''),
                (''priority'', NumberValue (Finite 7))],
               [(''title'', StringValue ''Tiny''), (''model'', StringValue ''tiny''),
                (''view'', Reference (length h))]])"
  by (simp add: getOptionDefinitionS_def findPresetS_def namedPresetsS_def newPreset_def
      newObject_def attachPriorityS_def nth_append)

lemma normalizeOptionsS_tiny:
  "normalizeOptionsS h [StringValue ''tiny''] =
     Inr ([Reference (Suc (length h))],
          h @ [[(''name'', StringValue ''span''), (''classes'', StringValue ''text-tiny''),
                (''priority'', NumberValue (Finite 7))],
               [(''title'', StringValue ''Tiny''), (''model'', StringValue ''tiny''),
                (''view'', Reference (length h))]])"
  by (simp add: normalizeOptionsS_def getOptionDefinitionS_tiny)

text \<open>
  Claim C9. From any store, two calls \<^verbatim>\<open>normalizeOptions( [ 'tiny' ] )\<close> return two
  different new objects with two different new view objects. Writing the title of the
  first result leaves the second as it was (title, model, view and the view's class and
  priority), and a later call still returns the title \<^verbatim>\<open>Tiny\<close>.
\<close>

theorem preset_clones_are_isolated:
  "\<exists>a1 v1 h1 a2 v2 h2 h3 a3 h4.
     normalizeOptionsS h [StringValue ''tiny''] = Inr ([Reference a1], h1) \<and>
     normalizeOptionsS h1 [StringValue ''tiny''] = Inr ([Reference a2], h2) \<and>
     getProperty h2 (Reference a1) ''view'' = Inr (Reference v1) \<and>
     getProperty h2 (Reference a2) ''view'' = Inr (Reference v2) \<and>
     distinct [a1, v1, a2, v2] \<and>
     length h \<le> a1 \<and> length h \<le> v1 \<and> length h \<le> a2 \<and> length h \<le> v2 \<and>
     getProperty h2 (Reference a1) ''title'' = Inr (StringValue ''Tiny'') \<and>
     getProperty h2 (Reference a2) ''title'' = Inr (StringValue ''Tiny'') \<and>
     setProperty h2 (Reference a1) ''title'' newTitle = Inr h3 \<and>
     getProperty h3 (Reference a1) ''title'' = Inr newTitle \<and>
     getProperty h3 (Reference a2) ''title'' = Inr (StringValue ''Tiny'') \<and>
     getProperty h3 (Reference a2) ''model'' = Inr (StringValue ''tiny'') \<and>
     getProperty h3 (Reference a2) ''view'' = Inr (Reference v2) \<and>
     getProperty h3 (Reference v2) ''classes'' = Inr (StringValue ''text-tiny'') \<and>
     getProperty h3 (Reference v2) ''priority'' = Inr (NumberValue (Finite 7)) \<and>
     normalizeOptionsS h3 [StringValue ''tiny''] = Inr ([Reference a3], h4) \<and>
     getProperty h4 (Reference a3) ''title'' = Inr (StringValue ''Tiny'')"
proof -
  let ?view = "[(''name'', StringValue ''span''), (''classes'', StringValue ''text-tiny''),
                (''priority'', NumberValue (Finite 7))]"
  let ?opt = "\<lambda>v. [(''title'', StringValue ''Tiny''), (''model'', StringValue ''tiny''),
                (''view'', Reference v)]"
  let ?n = "length h"
  let ?h1 = "h @ [?view, ?opt ?n]"
  let ?h2 = "?h1 @ [?view, ?opt (?n + 2)]"
  let ?h3 = "?h2[Suc ?n := putProperty ''title'' newTitle (?h2 ! Suc ?n)]"
  let ?h4 = "?h3 @ [?view, ?opt (?n + 4)]"
  have n1: "normalizeOptionsS h [StringValue ''tiny''] = Inr ([Reference (Suc ?n)], ?h1)"
    by (rule normalizeOptionsS_tiny)
  have n2: "normalizeOptionsS ?h1 [StringValue ''tiny''] = Inr ([Reference (?n + 3)], ?h2)"
    using normalizeOptionsS_tiny[of ?h1] by simp
  have s3: "setProperty ?h2 (Reference (Suc ?n)) ''title'' newTitle = Inr ?h3"
    by simp
  have n4: "normalizeOptionsS ?h3 [StringValue ''tiny''] = Inr ([Reference (?n + 5)], ?h4)"
    using normalizeOptionsS_tiny[of ?h3] by simp
  have g1: "getProperty ?h2 (Reference (Suc ?n)) ''view'' = Inr (Reference ?n)"
    "getProperty ?h2 (Reference (?n + 3)) ''view'' = Inr (Reference (?n + 2))"
    "getProperty ?h2 (Reference (Suc ?n)) ''title'' = Inr (StringValue ''Tiny'')"
    "getProperty ?h2 (Reference (?n + 3)) ''title'' = Inr (StringValue ''Tiny'')"
    by (simp_all add: nth_append)
  have g3: "getProperty ?h3 (Reference (Suc ?n)) ''title'' = Inr newTitle"
    "getProperty ?h3 (Reference (?n + 3)) ''title'' = Inr (StringValue ''Tiny'')"
    "getProperty ?h3 (Reference (?n + 3)) ''model'' = Inr (StringValue ''tiny'')"
    "getProperty ?h3 (Reference (?n + 3)) ''view'' = Inr (Reference (?n + 2))"
    "getProperty ?h3 (Reference (?n + 2)) ''classes'' = Inr (StringValue ''text-tiny'')"
    "getProperty ?h3 (Reference (?n + 2)) ''priority'' = Inr (NumberValue (Finite 7))"
    by (simp_all add: nth_append nth_list_update)
  have g4: "getProperty ?h4 (Reference (?n + 5)) ''title'' = Inr (StringValue ''Tiny'')"
    by (simp add: nth_append)
  have d: "distinct [Suc ?n, ?n, ?n + 3, ?n + 2]" by simp
  show ?thesis
    apply (rule exI[of _ "Suc ?n"], rule exI[of _ ?n], rule exI[of _ ?h1])
    apply (rule exI[of _ "?n + 3"], rule exI[of _ "?n + 2"], rule exI[of _ ?h2])
    apply (rule exI[of _ ?h3], rule exI[of _ "?n + 5"], rule exI[of _ ?h4])
    using n1 n2 s3 n4 g1 g3 g4 d by simp
qed

end
